theory Spec2Isabelle
  imports Complex_Main "HOL-Library.Log_Nat"
begin

section \<open>HealthCanvas: the biomarker analytics of \<open>frontend/src/HealthCanvas.jsx\<close>\<close>

text \<open>
  The embedding follows the JavaScript source function by function. Conventions:
  \<^item> A number as written (a lab value, a range bound, a target) is a rational (\<open>rat\<close>);
    order comparisons between written numbers are exact, and \<open>NaN\<close> inputs are outside the
    model. Where the source computes a difference, a quotient and a product whose rounding
    shows in the result (\<open>calculateTrend\<close>, \<open>VisitPreparation\<close>), the model computes as the
    program does, in IEEE-754 binary64: \<open>to_double\<close> takes a written number to the nearest
    double and every operation rounds its exact result (\<open>jsnum\<close>). The progress of
    \<open>GoalsTracker\<close> and the scores of \<open>HealthScoreDashboard\<close> are kept exact: the former
    divides 0, the latter rounds a quotient of integers below 5000 by at most 41 to an
    integer, which the double quotient rounds to as well.
  \<^item> A date string is modelled by the number \<open>new Date(s)\<close> turns it into (an \<open>int\<close>);
    the comparators of the source subtract two such numbers.
  \<^item> \<open>Array.prototype.sort\<close> is stable (ECMAScript 2019) and sorts the array in place;
    it is modelled by the stable insertion sort \<open>sort_key\<close>.
  \<^item> A thrown \<open>TypeError\<close> is the value \<open>Inl TypeError\<close>.
\<close>

subsection \<open>Data model\<close>

datatype error = TypeError

datatype status = Optimal | Normal | Attention | Critical

datatype category = Metabolic | Cardiovascular | Kidney | Liver | Thyroid
  | Inflammation | Nutrients | BloodCount | Hormones

text \<open>
  One value of the object literal \<open>BIOMARKER_DEFINITIONS\<close>. The fields \<open>description\<close>,
  \<open>influences\<close>, \<open>relatedMarkers\<close> and \<open>aliases\<close> are display texts that no function
  modelled here reads; they are left out. \<open>higherIsBetter\<close> is \<open>true\<close>, \<open>false\<close> or
  \<open>null\<close>.
\<close>

record BiomarkerDefinition =
  name :: string
  unit :: string
  category :: category
  normalRange :: "rat \<times> rat"
  optimalRange :: "rat \<times> rat"
  criticalLow :: rat
  criticalHigh :: rat
  higherIsBetter :: "bool option"

text \<open>
  A lab record as the components receive it: \<open>{ markerId, value, date }\<close> (\<open>val\<close> is
  the field \<open>value\<close>; \<open>id\<close> and \<open>labName\<close> are not read by the functions modelled
  here). A goal: \<open>{ markerId, targetValue }\<close>.
\<close>

record lab_record =
  markerId :: string
  val :: rat
  date :: int

record goal =
  goalMarkerId :: string
  targetValue :: rat

definition mk_def ::
  "string \<Rightarrow> string \<Rightarrow> category \<Rightarrow> rat \<times> rat \<Rightarrow> rat \<times> rat \<Rightarrow> rat \<Rightarrow> rat \<Rightarrow> bool option
    \<Rightarrow> BiomarkerDefinition" where
  "mk_def n u c nr orng cl ch hib =
     \<lparr>name = n, unit = u, category = c, normalRange = nr, optimalRange = orng,
      criticalLow = cl, criticalHigh = ch, higherIsBetter = hib\<rparr>"

text \<open>The object literal, as the list of its own properties in source order.\<close>

definition BIOMARKER_DEFINITIONS :: "(string \<times> BiomarkerDefinition) list" where
  "BIOMARKER_DEFINITIONS =
   [(''glucose'', mk_def ''Fasting Glucose'' ''mg/dL'' Metabolic (70, 100) (72, 90) 54 126 (Some False)),
    (''hba1c'', mk_def ''HbA1c'' ''%'' Metabolic (4, 56/10) (45/10, 52/10) (35/10) (65/10) (Some False)),
    (''insulin'', mk_def ''Fasting Insulin'' ''uIU/mL'' Metabolic (26/10, 249/10) (3, 10) 1 30 (Some False)),
    (''totalCholesterol'', mk_def ''Total Cholesterol'' ''mg/dL'' Cardiovascular (125, 200) (140, 180) 100 240 None),
    (''ldl'', mk_def ''LDL Cholesterol'' ''mg/dL'' Cardiovascular (0, 100) (0, 70) 0 160 (Some False)),
    (''hdl'', mk_def ''HDL Cholesterol'' ''mg/dL'' Cardiovascular (40, 100) (60, 100) 35 120 (Some True)),
    (''triglycerides'', mk_def ''Triglycerides'' ''mg/dL'' Cardiovascular (0, 150) (0, 100) 0 500 (Some False)),
    (''homocysteine'', mk_def ''Homocysteine'' ''umol/L'' Cardiovascular (5, 15) (6, 10) 3 20 (Some False)),
    (''creatinine'', mk_def ''Creatinine'' ''mg/dL'' Kidney (7/10, 13/10) (8/10, 11/10) (5/10) (15/10) (Some False)),
    (''egfr'', mk_def ''eGFR'' ''mL/min'' Kidney (90, 120) (100, 120) 60 150 (Some True)),
    (''bun'', mk_def ''BUN'' ''mg/dL'' Kidney (7, 20) (10, 16) 5 30 (Some False)),
    (''uricAcid'', mk_def ''Uric Acid'' ''mg/dL'' Kidney (35/10, 72/10) (4, 6) 2 9 (Some False)),
    (''alt'', mk_def ''ALT'' ''U/L'' Liver (7, 56) (10, 35) 5 100 (Some False)),
    (''ast'', mk_def ''AST'' ''U/L'' Liver (10, 40) (15, 30) 5 80 (Some False)),
    (''ggt'', mk_def ''GGT'' ''U/L'' Liver (9, 48) (10, 30) 5 100 (Some False)),
    (''bilirubin'', mk_def ''Total Bilirubin'' ''mg/dL'' Liver (1/10, 12/10) (2/10, 8/10) 0 2 (Some False)),
    (''albumin'', mk_def ''Albumin'' ''g/dL'' Liver (35/10, 55/10) (4, 5) 3 6 (Some True)),
    (''alp'', mk_def ''ALP'' ''U/L'' Liver (44, 147) (50, 120) 30 200 (Some False)),
    (''tsh'', mk_def ''TSH'' ''mIU/L'' Thyroid (4/10, 4) (1, 25/10) (1/10) 10 None),
    (''freeT4'', mk_def ''Free T4'' ''ng/dL'' Thyroid (8/10, 18/10) (1, 15/10) (5/10) (25/10) None),
    (''freeT3'', mk_def ''Free T3'' ''pg/mL'' Thyroid (2, 44/10) (25/10, 4) (15/10) 5 None),
    (''crp'', mk_def ''hs-CRP'' ''mg/L'' Inflammation (0, 3) (0, 1) 0 10 (Some False)),
    (''esr'', mk_def ''ESR'' ''mm/hr'' Inflammation (0, 20) (0, 10) 0 40 (Some False)),
    (''vitaminD'', mk_def ''Vitamin D'' ''ng/mL'' Nutrients (30, 100) (40, 60) 20 100 (Some True)),
    (''vitaminB12'', mk_def ''Vitamin B12'' ''pg/mL'' Nutrients (200, 900) (400, 700) 150 1000 (Some True)),
    (''folate'', mk_def ''Folate'' ''ng/mL'' Nutrients (3, 17) (5, 15) 2 20 (Some True)),
    (''iron'', mk_def ''Serum Iron'' ''ug/dL'' Nutrients (60, 170) (70, 140) 40 200 None),
    (''ferritin'', mk_def ''Ferritin'' ''ng/mL'' Nutrients (30, 300) (50, 150) 15 400 None),
    (''calcium'', mk_def ''Calcium'' ''mg/dL'' Nutrients (85/10, 105/10) (9, 10) (75/10) (115/10) None),
    (''magnesium'', mk_def ''Magnesium'' ''mg/dL'' Nutrients (17/10, 22/10) (19/10, 21/10) (14/10) (25/10) None),
    (''zinc'', mk_def ''Zinc'' ''ug/dL'' Nutrients (60, 120) (70, 100) 50 150 None),
    (''hemoglobin'', mk_def ''Hemoglobin'' ''g/dL'' BloodCount (12, 175/10) (135/10, 16) 10 (185/10) None),
    (''hematocrit'', mk_def ''Hematocrit'' ''%'' BloodCount (36, 50) (40, 46) 30 55 None),
    (''rbc'', mk_def ''Red Blood Cells'' ''M/uL'' BloodCount (4, 55/10) (45/10, 52/10) (35/10) 6 None),
    (''wbc'', mk_def ''White Blood Cells'' ''K/uL'' BloodCount (4, 11) (5, 9) 3 15 None),
    (''platelets'', mk_def ''Platelets'' ''K/uL'' BloodCount (150, 400) (175, 350) 100 500 None),
    (''mcv'', mk_def ''MCV'' ''fL'' BloodCount (80, 100) (82, 96) 70 110 None),
    (''testosterone'', mk_def ''Total Testosterone'' ''ng/dL'' Hormones (300, 1000) (500, 800) 200 1200 None),
    (''estradiol'', mk_def ''Estradiol'' ''pg/mL'' Hormones (10, 40) (15, 30) 5 60 None),
    (''cortisol'', mk_def ''Cortisol (AM)'' ''ug/dL'' Hormones (6, 23) (10, 18) 3 30 None),
    (''dheas'', mk_def ''DHEA-S'' ''ug/dL'' Hormones (100, 400) (150, 350) 50 500 None)]"

definition CATEGORIES :: "category list" where
  "CATEGORIES = [Metabolic, Cardiovascular, Kidney, Liver, Thyroid, Inflammation, Nutrients,
                 BloodCount, Hormones]"

subsection \<open>Property lookup on an object literal\<close>

text \<open>
  \<open>obj[key]\<close> on an object literal finds the object's own property, or else a property
  inherited from \<open>Object.prototype\<close> (a function or an object, never a biomarker
  definition), or else \<open>undefined\<close>.
\<close>

datatype 'a js_prop = Own 'a | Inherited | Undefined

definition Object_prototype_keys :: "string list" where
  "Object_prototype_keys =
     [''constructor'', ''hasOwnProperty'', ''isPrototypeOf'', ''propertyIsEnumerable'',
      ''toLocaleString'', ''toString'', ''valueOf'', ''__proto__'', ''__defineGetter__'',
      ''__defineSetter__'', ''__lookupGetter__'', ''__lookupSetter__'']"

definition js_get :: "(string \<times> 'a) list \<Rightarrow> string \<Rightarrow> 'a js_prop" where
  "js_get obj k =
     (case map_of obj k of
        Some v \<Rightarrow> Own v
      | None \<Rightarrow> if k \<in> set Object_prototype_keys then Inherited else Undefined)"

definition Object_keys :: "(string \<times> 'a) list \<Rightarrow> string list" where
  "Object_keys obj = map fst obj"

subsection \<open>Utility functions\<close>

text \<open>
  \<open>getStatus\<close>. When the lookup finds an inherited property, \<open>def\<close> is truthy, both
  comparisons with the \<open>undefined\<close> \<open>def.criticalLow\<close> and \<open>def.criticalHigh\<close> are false,
  and reading \<open>def.optimalRange[0]\<close> throws.
\<close>

definition getStatus :: "rat \<Rightarrow> string \<Rightarrow> error + status" where
  "getStatus v mid =
     (case js_get BIOMARKER_DEFINITIONS mid of
        Undefined \<Rightarrow> Inr Normal
      | Inherited \<Rightarrow> Inl TypeError
      | Own d \<Rightarrow>
          if v \<le> criticalLow d \<or> v \<ge> criticalHigh d then Inr Critical
          else if v \<ge> fst (optimalRange d) \<and> v \<le> snd (optimalRange d) then Inr Optimal
          else if v \<ge> fst (normalRange d) \<and> v \<le> snd (normalRange d) then Inr Normal
          else Inr Attention)"


subsection \<open>Arrays\<close>

text \<open>
  The comparator \<open>(a, b) => new Date(b.date) - new Date(a.date)\<close> sorts by date, newest
  first; \<open>(a, b) => new Date(a.date) - new Date(b.date)\<close> sorts oldest first. Records
  with equal dates keep their relative order.
\<close>

definition sort_date_desc :: "lab_record list \<Rightarrow> lab_record list" where
  "sort_date_desc xs = sort_key (\<lambda>r. - date r) xs"

definition sort_date_asc :: "lab_record list \<Rightarrow> lab_record list" where
  "sort_date_asc xs = sort_key date xs"

text \<open>\<open>arr[i]\<close>: \<open>undefined\<close> (here \<open>None\<close>) when \<open>i\<close> is out of range.\<close>

definition js_index :: "'a list \<Rightarrow> nat \<Rightarrow> 'a option" where
  "js_index xs i = (if i < length xs then Some (xs ! i) else None)"

text \<open>\<open>arr.slice(start)\<close>: a negative \<open>start\<close> counts from the end, clamped at 0.\<close>

definition js_slice_from :: "int \<Rightarrow> 'a list \<Rightarrow> 'a list" where
  "js_slice_from start xs =
     (if start < 0 then drop (nat (max (int (length xs) + start) 0)) xs
      else drop (nat start) xs)"

text \<open>\<open>Math.round\<close> rounds to the nearest integer, a tie towards \<open>+\<infinity>\<close>.\<close>

definition Math_round :: "rat \<Rightarrow> int" where
  "Math_round x = \<lfloor>x + 1 / 2\<rfloor>"

text \<open>\<open>arr.forEach(f)\<close> over a state; an exception thrown by \<open>f\<close> ends the loop.\<close>

fun forEach :: "('a \<Rightarrow> 's \<Rightarrow> error + 's) \<Rightarrow> 'a list \<Rightarrow> 's \<Rightarrow> error + 's" where
  "forEach f [] s = Inr s"
| "forEach f (x # xs) s = (case f x s of Inl e \<Rightarrow> Inl e | Inr s' \<Rightarrow> forEach f xs s')"

subsection \<open>Numbers as the program holds them\<close>

text \<open>
  A JavaScript number is an IEEE-754 double: a finite double (\<open>Fin x\<close>, with \<open>Fin 0\<close> for
  \<open>+0\<close>), \<open>-0\<close>, an infinity or \<open>NaN\<close>. \<open>pow2 e\<close> is 2 to the power \<open>e\<close>, and
  \<open>ilog2 x\<close> is the exponent \<open>e\<close> of a positive \<open>x\<close>: \<open>pow2 e \<le> x < pow2 (e + 1)\<close>.
\<close>

datatype jsnum = Fin rat | NegZero | PosInf | NegInf | NaN

definition pow2 :: "int \<Rightarrow> rat" where
  "pow2 e = 2 powi e"

definition ilog2 :: "rat \<Rightarrow> int" where
  "ilog2 x =
     (let d = bitlen (fst (quotient_of x)) - bitlen (snd (quotient_of x))
      in if pow2 d \<le> x then d else d - 1)"

text \<open>The nearest integer, the even one at a tie.\<close>

definition round_half_even :: "rat \<Rightarrow> int" where
  "round_half_even x =
     (let f = \<lfloor>x\<rfloor>; r = x - of_int f
      in if r < 1 / 2 then f else if 1 / 2 < r then f + 1 else if even f then f else f + 1)"

text \<open>
  The double nearest to a rational, the one with an even significand at a tie: 53
  significant bits, with the spacing \<open>pow2 (- 1074)\<close> below \<open>pow2 (- 1022)\<close>; a result of
  magnitude \<open>pow2 1024\<close> or more is an infinity, and a negative number that rounds to 0
  is \<open>-0\<close>. This is what \<open>parseFloat\<close> and a number literal yield, and how every
  arithmetic operation rounds its exact result.
\<close>

definition to_double :: "rat \<Rightarrow> jsnum" where
  "to_double x =
     (if x = 0 then Fin 0
      else
        let e = max (ilog2 \<bar>x\<bar>) (- 1022);
            ulp = pow2 (e - 52);
            y = of_int (round_half_even (x / ulp)) * ulp
        in if y = 0 then (if x < 0 then NegZero else Fin 0)
           else if 1024 \<le> ilog2 \<bar>y\<bar> then (if 0 < x then PosInf else NegInf)
           else Fin y)"

text \<open>The sign bit, and the tests and projections used by the operations.\<close>

fun js_negative :: "jsnum \<Rightarrow> bool" where
  "js_negative (Fin x) = (x < 0)"
| "js_negative NegZero = True"
| "js_negative PosInf = False"
| "js_negative NegInf = True"
| "js_negative NaN = False"

fun js_is_zero :: "jsnum \<Rightarrow> bool" where
  "js_is_zero (Fin x) = (x = 0)"
| "js_is_zero NegZero = True"
| "js_is_zero n = False"

fun js_is_finite :: "jsnum \<Rightarrow> bool" where
  "js_is_finite (Fin x) = True"
| "js_is_finite NegZero = True"
| "js_is_finite n = False"

fun js_val :: "jsnum \<Rightarrow> rat" where
  "js_val (Fin x) = x"
| "js_val n = 0"

text \<open>
  \<open>a - b\<close>, \<open>a / b\<close> and \<open>a * b\<close> on doubles. A zero result of a product or quotient takes
  the sign of the operands' signs; \<open>x - x\<close> is \<open>+0\<close>, and \<open>(-0) - (+0)\<close> is \<open>-0\<close>.
\<close>

definition with_sign :: "bool \<Rightarrow> jsnum \<Rightarrow> jsnum" where
  "with_sign s r = (if js_is_zero r then (if s then NegZero else Fin 0) else r)"

definition js_minus :: "jsnum \<Rightarrow> jsnum \<Rightarrow> jsnum" where
  "js_minus a b =
     (if a = NaN \<or> b = NaN then NaN
      else if js_is_finite a then
        (if js_is_finite b then
           (if js_val a = js_val b then (if a = NegZero \<and> b = Fin 0 then NegZero else Fin 0)
            else to_double (js_val a - js_val b))
         else if b = PosInf then NegInf else PosInf)
      else if js_is_finite b then a
      else if a = b then NaN else a)"

definition js_divide :: "jsnum \<Rightarrow> jsnum \<Rightarrow> jsnum" where
  "js_divide a b =
     (if a = NaN \<or> b = NaN then NaN
      else let s = (js_negative a \<noteq> js_negative b) in
        if js_is_finite a then
          (if js_is_finite b then
             (if js_is_zero b then (if js_is_zero a then NaN else if s then NegInf else PosInf)
              else with_sign s (to_double (js_val a / js_val b)))
           else if s then NegZero else Fin 0)
        else if js_is_finite b then (if s then NegInf else PosInf)
        else NaN)"

definition js_times :: "jsnum \<Rightarrow> jsnum \<Rightarrow> jsnum" where
  "js_times a b =
     (if a = NaN \<or> b = NaN then NaN
      else let s = (js_negative a \<noteq> js_negative b) in
        if js_is_finite a \<and> js_is_finite b then with_sign s (to_double (js_val a * js_val b))
        else if js_is_zero a \<or> js_is_zero b then NaN
        else if s then NegInf else PosInf)"

text \<open>\<open>Math.abs\<close>, and \<open>a > c\<close>, \<open>a < c\<close> against a finite constant \<open>c\<close>.\<close>

fun Math_abs :: "jsnum \<Rightarrow> jsnum" where
  "Math_abs (Fin x) = Fin \<bar>x\<bar>"
| "Math_abs NegZero = Fin 0"
| "Math_abs PosInf = PosInf"
| "Math_abs NegInf = PosInf"
| "Math_abs NaN = NaN"

fun js_num_gt :: "jsnum \<Rightarrow> rat \<Rightarrow> bool" where
  "js_num_gt (Fin x) c = (c < x)"
| "js_num_gt NegZero c = (c < 0)"
| "js_num_gt PosInf c = True"
| "js_num_gt NegInf c = False"
| "js_num_gt NaN c = False"

fun js_num_lt :: "jsnum \<Rightarrow> rat \<Rightarrow> bool" where
  "js_num_lt (Fin x) c = (x < c)"
| "js_num_lt NegZero c = (0 < c)"
| "js_num_lt PosInf c = False"
| "js_num_lt NegInf c = True"
| "js_num_lt NaN c = False"

text \<open>
  The string \<open>x.toFixed(1)\<close>. \<open>Decimal1 neg n\<close> is the decimal numeral of \<open>n / 10\<close> with
  one digit after the point, preceded by a minus sign when \<open>neg\<close>: \<open>n\<close> is the integer
  nearest to ten times the magnitude of the double, the larger one at a tie.
  \<open>ToString x\<close> is the string \<open>String(x)\<close>, which \<open>toFixed\<close> returns for a magnitude of
  \<open>10 ^ 21\<close> or more, for an infinity and for \<open>NaN\<close>.
\<close>

datatype printed = Decimal1 bool nat | ToString jsnum

fun js_toFixed1 :: "jsnum \<Rightarrow> printed" where
  "js_toFixed1 (Fin x) =
     (if 10 ^ 21 \<le> \<bar>x\<bar> then ToString (Fin x)
      else Decimal1 (x < 0) (nat \<lfloor>\<bar>x\<bar> * 10 + 1 / 2\<rfloor>))"
| "js_toFixed1 NegZero = Decimal1 False 0"
| "js_toFixed1 n = ToString n"

subsection \<open>\<open>calculateTrend\<close>\<close>

datatype direction = Up | Down | Stable

text \<open>The field \<open>change\<close> is the number 0 or the string that \<open>toFixed(1)\<close> returns.\<close>

datatype change_field = ChangeNumber rat | ChangeText printed

record trend =
  direction :: direction
  change :: change_field

definition calculateTrend :: "lab_record list \<Rightarrow> error + trend" where
  "calculateTrend records =
     (if length records < 2 then Inr \<lparr>direction = Stable, change = ChangeNumber 0\<rparr>
      else
        let sorted = sort_date_asc records;
            recent = js_slice_from (- 3) sorted
        in case js_index recent 0 of
             None \<Rightarrow> Inl TypeError
           | Some f \<Rightarrow>
              (case js_index recent (length recent - 1) of
                 None \<Rightarrow> Inl TypeError
               | Some l \<Rightarrow>
                  (let firstv = to_double (val f);
                       lastv = to_double (val l);
                       chg = (if \<not> js_is_zero firstv
                              then js_times (js_divide (js_minus lastv firstv) firstv) (Fin 100)
                              else Fin 0)
                   in if js_num_lt (Math_abs chg) 3
                      then Inr \<lparr>direction = Stable, change = ChangeNumber 0\<rparr>
                      else Inr \<lparr>direction = (if js_num_gt chg 0 then Up else Down),
                                change = ChangeText (js_toFixed1 (Math_abs chg))\<rparr>)))"

subsection \<open>\<open>detectPatterns\<close>\<close>

text \<open>
  A pushed pattern, \<open>{ type, severity, title, description, markers }\<close>. The
  \<open>description\<close> is a display sentence (for the metabolic pattern it quotes the number
  of raised flags) and is left out.
\<close>

record pattern =
  ptype :: string
  severity :: status
  title :: string
  markers :: "string list"

text \<open>
  The body of the first \<open>forEach\<close>: \<open>latest[id]\<close> becomes the value of the newest record
  of marker \<open>id\<close>, when there is one.
\<close>

definition latest_step :: "lab_record list \<Rightarrow> string \<Rightarrow> (string \<rightharpoonup> rat) \<Rightarrow> (string \<rightharpoonup> rat)" where
  "latest_step records mid latest =
     (let markerRecords = filter (\<lambda>r. markerId r = mid) records
      in if length markerRecords > 0
         then latest(mid \<mapsto> val (hd (sort_date_desc markerRecords)))
         else latest)"

definition latest_values :: "lab_record list \<Rightarrow> (string \<rightharpoonup> rat)" where
  "latest_values records =
     fold (latest_step records) (Object_keys BIOMARKER_DEFINITIONS) Map.empty"

text \<open>
  A property of \<open>latest\<close> that was never set is \<open>undefined\<close>: it is falsy, and every
  comparison of it with a number is false. A number is falsy when it is 0.
\<close>

definition truthy :: "rat option \<Rightarrow> bool" where
  "truthy x = (case x of None \<Rightarrow> False | Some v \<Rightarrow> v \<noteq> 0)"

definition js_gt :: "rat option \<Rightarrow> rat \<Rightarrow> bool" where
  "js_gt x c = (case x of None \<Rightarrow> False | Some v \<Rightarrow> v > c)"

definition js_lt :: "rat option \<Rightarrow> rat \<Rightarrow> bool" where
  "js_lt x c = (case x of None \<Rightarrow> False | Some v \<Rightarrow> v < c)"

text \<open>The array literal of the four metabolic flags, before \<open>.filter(Boolean)\<close>.\<close>

definition metabolicFlagList :: "(string \<rightharpoonup> rat) \<Rightarrow> bool list" where
  "metabolicFlagList latest =
     [js_gt (latest ''glucose'') 100,
      js_gt (latest ''triglycerides'') 150,
      truthy (latest ''hdl'') \<and> js_lt (latest ''hdl'') 40,
      js_gt (latest ''hba1c'') (56 / 10)]"

definition detectPatterns :: "lab_record list \<Rightarrow> pattern list" where
  "detectPatterns records =
     (let latest = latest_values records;
          metabolicFlags = length (filter (\<lambda>b. b) (metabolicFlagList latest));
          patterns0 = [];
          patterns1 =
            (if metabolicFlags \<ge> 3
             then patterns0 @
               [\<lparr>ptype = ''metabolic_syndrome'', severity = Attention,
                 title = ''Metabolic Pattern Detected'',
                 markers = filter (\<lambda>m. truthy (latest m))
                             [''glucose'', ''triglycerides'', ''hdl'', ''hba1c'']\<rparr>]
             else patterns0);
          patterns2 =
            (if truthy (latest ''hemoglobin'') \<and> js_lt (latest ''hemoglobin'') 12 \<and>
                truthy (latest ''ferritin'') \<and> js_lt (latest ''ferritin'') 30
             then patterns1 @
               [\<lparr>ptype = ''iron_deficiency'', severity = Attention,
                 title = ''Iron Deficiency Pattern'',
                 markers = [''hemoglobin'', ''ferritin'']\<rparr>]
             else patterns1);
          patterns3 =
            (if truthy (latest ''tsh'') \<and>
                (js_gt (latest ''tsh'') 4 \<or> js_lt (latest ''tsh'') (4 / 10))
             then patterns2 @
               [\<lparr>ptype = ''thyroid'',
                 severity = (if js_gt (latest ''tsh'') 10 \<or> js_lt (latest ''tsh'') (1 / 10)
                             then Critical else Attention),
                 title = ''Thyroid Pattern Detected'',
                 markers = filter (\<lambda>m. truthy (latest m)) [''tsh'', ''freeT4'', ''freeT3'']\<rparr>]
             else patterns2);
          patterns4 =
            (if js_gt (latest ''creatinine'') (13 / 10) \<and>
                truthy (latest ''egfr'') \<and> js_lt (latest ''egfr'') 60
             then patterns3 @
               [\<lparr>ptype = ''kidney'', severity = Attention,
                 title = ''Reduced Kidney Function'',
                 markers = filter (\<lambda>m. truthy (latest m)) [''creatinine'', ''egfr'', ''bun'']\<rparr>]
             else patterns3)
      in patterns4)"

subsection \<open>\<open>HealthScoreDashboard\<close>\<close>

text \<open>The object literal \<open>scores\<close>, and \<open>scores[status] || 50\<close>.\<close>

definition scores :: "(status \<times> int) list" where
  "scores = [(Optimal, 100), (Normal, 80), (Attention, 50), (Critical, 20)]"

definition score_or_50 :: "status \<Rightarrow> int" where
  "score_or_50 s = (case map_of scores s of None \<Rightarrow> 50 | Some p \<Rightarrow> if p = 0 then 50 else p)"

text \<open>The body of \<open>markers.forEach\<close>; the state is \<open>(totalScore, count)\<close>.\<close>

definition score_marker ::
  "lab_record list \<Rightarrow> string \<times> BiomarkerDefinition \<Rightarrow> int \<times> nat \<Rightarrow> error + int \<times> nat" where
  "score_marker records entry acc =
     (let mid = fst entry;
          markerRecords = filter (\<lambda>r. markerId r = mid) records
      in if length markerRecords > 0
         then (let latest = hd (sort_date_desc markerRecords)
               in case getStatus (val latest) mid of
                    Inl e \<Rightarrow> Inl e
                  | Inr status \<Rightarrow> Inr (fst acc + score_or_50 status, snd acc + 1))
         else Inr acc)"

text \<open>The callback of \<open>CATEGORIES.map\<close>: \<open>{ category, score, count }\<close>, \<open>score\<close> possibly \<open>null\<close>.\<close>

definition category_entry ::
  "lab_record list \<Rightarrow> category \<Rightarrow> error + category \<times> int option \<times> nat" where
  "category_entry records c =
     (let markers = filter (\<lambda>(_, d). category d = c) BIOMARKER_DEFINITIONS
      in case forEach (score_marker records) markers (0, 0) of
           Inl e \<Rightarrow> Inl e
         | Inr (totalScore, count) \<Rightarrow>
             Inr (c,
                  (if count > 0 then Some (Math_round (of_int totalScore / of_nat count))
                   else None),
                  count))"

fun map_throwing :: "('a \<Rightarrow> error + 'b) \<Rightarrow> 'a list \<Rightarrow> error + 'b list" where
  "map_throwing f [] = Inr []"
| "map_throwing f (x # xs) =
     (case f x of
        Inl e \<Rightarrow> Inl e
      | Inr y \<Rightarrow> (case map_throwing f xs of Inl e \<Rightarrow> Inl e | Inr ys \<Rightarrow> Inr (y # ys)))"

text \<open>
  The component's two values: \<open>categoryScores\<close> (after \<open>.filter(c => c.score !== null)\<close>)
  and \<open>overallScore\<close> (\<open>null\<close> is \<open>None\<close>).
\<close>

definition HealthScoreDashboard ::
  "lab_record list \<Rightarrow> error + (category \<times> int \<times> nat) list \<times> int option" where
  "HealthScoreDashboard records =
     (case map_throwing (category_entry records) CATEGORIES of
        Inl e \<Rightarrow> Inl e
      | Inr entries \<Rightarrow>
          (let categoryScores = [(c, s, n). (c, Some s, n) \<leftarrow> entries];
               overallScore =
                 (if length categoryScores > 0
                  then Some (Math_round
                         (of_int (fold (\<lambda>(c, s, n) sum. sum + s) categoryScores 0)
                            / of_nat (length categoryScores)))
                  else None)
           in Inr (categoryScores, overallScore)))"

subsection \<open>\<open>GoalsTracker\<close>\<close>

text \<open>
  The progress computation reads \<open>markerRecords\<close> again after sorting it, so the arrays
  live in a store: \<open>filter\<close> allocates a new array, \<open>sort\<close> overwrites the array it is
  called on and returns that same array.
\<close>

record heap =
  cells :: "nat \<Rightarrow> lab_record list"
  fresh :: nat

definition Array_filter :: "(lab_record \<Rightarrow> bool) \<Rightarrow> nat \<Rightarrow> heap \<Rightarrow> nat \<times> heap" where
  "Array_filter p a h =
     (fresh h, h\<lparr>cells := (cells h)(fresh h := filter p (cells h a)), fresh := Suc (fresh h)\<rparr>)"

definition Array_sort_date_desc :: "nat \<Rightarrow> heap \<Rightarrow> nat \<times> heap" where
  "Array_sort_date_desc a h = (a, h\<lparr>cells := (cells h)(a := sort_date_desc (cells h a))\<rparr>)"

definition Array_at :: "heap \<Rightarrow> nat \<Rightarrow> nat \<Rightarrow> lab_record option" where
  "Array_at h a i = js_index (cells h a) i"

definition Array_length :: "heap \<Rightarrow> nat \<Rightarrow> nat" where
  "Array_length h a = length (cells h a)"

text \<open>
  The value of \<open>progress\<close> that the callback of \<open>goals.map\<close> computes for goal \<open>g\<close>. The
  prop \<open>records\<close> is the array at address 0.
\<close>

definition GoalsTracker_progress :: "goal \<Rightarrow> lab_record list \<Rightarrow> error + rat" where
  "GoalsTracker_progress g records =
     (let h0 = \<lparr>cells = (\<lambda>_. [])(0 := records), fresh = 1\<rparr>;
          (markerRecords, h1) = Array_filter (\<lambda>r. markerId r = goalMarkerId g) 0 h0;
          (sortedRef, h2) = Array_sort_date_desc markerRecords h1
      in case Array_at h2 sortedRef 0 of
           None \<Rightarrow> Inr 0
         | Some latest \<Rightarrow>
             if targetValue g \<noteq> 0 then
               (case (if Array_length h2 markerRecords > 1
                      then map_option val (Array_at h2 markerRecords 0)
                      else Some (val latest)) of
                  None \<Rightarrow> Inl TypeError
                | Some baseline \<Rightarrow>
                    (let current = val latest;
                         target = targetValue g;
                         totalChange = \<bar>target - baseline\<bar>;
                         actualChange = \<bar>current - baseline\<bar>;
                         progress = (if totalChange > 0
                                     then min 100 ((actualChange / totalChange) * 100)
                                     else 0)
                     in if (target < baseline \<and> current > baseline) \<or>
                           (target > baseline \<and> current < baseline)
                        then Inr 0
                        else Inr progress))
             else Inr 0)"

subsection \<open>\<open>VisitPreparation\<close>\<close>

text \<open>
  The percent change divides by \<open>previous.value\<close> unguarded, so it may be \<open>Infinity\<close>,
  \<open>-Infinity\<close> or \<open>NaN\<close>.
\<close>

datatype change_direction = Increased | Decreased

record flagged_marker =
  f_id :: string
  f_value :: rat
  f_status :: status

record significant_change =
  c_id :: string
  c_change :: printed
  c_direction :: change_direction

text \<open>
  The body of the \<open>forEach\<close> over \<open>Object.keys(BIOMARKER_DEFINITIONS)\<close>; the state is
  \<open>(flaggedMarkers, significantChanges)\<close>. The pushed objects also carry \<open>name\<close> and
  \<open>unit\<close>, copied from \<open>BIOMARKER_DEFINITIONS[id]\<close> for display, which the model leaves
  out: \<open>id\<close> is always an own key of the catalog here.
\<close>

definition visit_step ::
  "lab_record list \<Rightarrow> string \<Rightarrow> flagged_marker list \<times> significant_change list
     \<Rightarrow> error + flagged_marker list \<times> significant_change list" where
  "visit_step records mid acc =
     (let markerRecords = filter (\<lambda>r. markerId r = mid) records
      in if length markerRecords > 0 then
           (let sorted = sort_date_desc markerRecords;
                latest = hd sorted
            in case getStatus (val latest) mid of
                 Inl e \<Rightarrow> Inl e
               | Inr status \<Rightarrow>
                  (let flaggedMarkers =
                         (if status = Attention \<or> status = Critical
                          then fst acc @ [\<lparr>f_id = mid, f_value = val latest, f_status = status\<rparr>]
                          else fst acc);
                       significantChanges =
                         (if length sorted \<ge> 2 then
                            (let previous = sorted ! 1;
                                 chg = js_times
                                         (js_divide
                                            (js_minus (to_double (val latest))
                                                      (to_double (val previous)))
                                            (to_double (val previous)))
                                         (Fin 100)
                             in if js_num_gt (Math_abs chg) 15
                                then snd acc @
                                  [\<lparr>c_id = mid, c_change = js_toFixed1 chg,
                                    c_direction = (if js_num_gt chg 0 then Increased
                                                   else Decreased)\<rparr>]
                                else snd acc)
                          else snd acc)
                   in Inr (flaggedMarkers, significantChanges)))
         else Inr acc)"

definition VisitPreparation ::
  "lab_record list \<Rightarrow> error + flagged_marker list \<times> significant_change list" where
  "VisitPreparation records =
     forEach (visit_step records) (Object_keys BIOMARKER_DEFINITIONS) ([], [])"

subsection \<open>Notions used to state the claims\<close>

text \<open>
  The records of one marker, in the order of the input; the newest of them (the head of
  the newest-first sort, as every component takes it) and the one after it; the oldest
  of them; and the value of the newest, when the marker has records at all.
\<close>

definition records_of :: "lab_record list \<Rightarrow> string \<Rightarrow> lab_record list" where
  "records_of records mid = filter (\<lambda>r. markerId r = mid) records"

definition latest_record :: "lab_record list \<Rightarrow> string \<Rightarrow> lab_record" where
  "latest_record records mid = hd (sort_date_desc (records_of records mid))"

definition previous_record :: "lab_record list \<Rightarrow> string \<Rightarrow> lab_record" where
  "previous_record records mid = sort_date_desc (records_of records mid) ! 1"

definition earliest_record :: "lab_record list \<Rightarrow> string \<Rightarrow> lab_record" where
  "earliest_record records mid = hd (sort_date_asc (records_of records mid))"

definition latest_of :: "lab_record list \<Rightarrow> string \<Rightarrow> rat option" where
  "latest_of records mid =
     (if records_of records mid = [] then None else Some (val (latest_record records mid)))"

text \<open>
  The catalog markers of a category, in catalog order; those of them with at least one
  record; the points of a status tier; and the points of a marker's newest record.
\<close>

definition category_markers :: "category \<Rightarrow> string list" where
  "category_markers c = map fst (filter (\<lambda>(k, d). category d = c) BIOMARKER_DEFINITIONS)"

definition markers_with_data :: "lab_record list \<Rightarrow> category \<Rightarrow> string list" where
  "markers_with_data records c = filter (\<lambda>m. records_of records m \<noteq> []) (category_markers c)"

definition status_points :: "status \<Rightarrow> int" where
  "status_points s = (case s of Optimal \<Rightarrow> 100 | Normal \<Rightarrow> 80 | Attention \<Rightarrow> 50 | Critical \<Rightarrow> 20)"

definition marker_points :: "lab_record list \<Rightarrow> string \<Rightarrow> int" where
  "marker_points records m =
     (case getStatus (val (latest_record records m)) m of
        Inr s \<Rightarrow> status_points s
      | Inl e \<Rightarrow> 0)"

text \<open>
  For the visit summary: whether a marker is flagged, its percent change from the record
  before the newest to the newest, whether that change is pushed, and the two objects
  pushed for it.
\<close>

definition is_flagged :: "lab_record list \<Rightarrow> string \<Rightarrow> bool" where
  "is_flagged records m \<longleftrightarrow>
     records_of records m \<noteq> [] \<and>
     (getStatus (val (latest_record records m)) m = Inr Attention \<or>
      getStatus (val (latest_record records m)) m = Inr Critical)"

definition percent_change :: "lab_record list \<Rightarrow> string \<Rightarrow> jsnum" where
  "percent_change records m =
     js_times
       (js_divide
          (js_minus (to_double (val (latest_record records m)))
                    (to_double (val (previous_record records m))))
          (to_double (val (previous_record records m))))
       (Fin 100)"

definition is_significant :: "lab_record list \<Rightarrow> string \<Rightarrow> bool" where
  "is_significant records m \<longleftrightarrow>
     2 \<le> length (records_of records m) \<and> js_num_gt (Math_abs (percent_change records m)) 15"

definition flag_entry :: "lab_record list \<Rightarrow> string \<Rightarrow> flagged_marker" where
  "flag_entry records m =
     \<lparr>f_id = m, f_value = val (latest_record records m),
      f_status = (case getStatus (val (latest_record records m)) m of
                    Inr s \<Rightarrow> s | Inl e \<Rightarrow> Normal)\<rparr>"

definition change_entry :: "lab_record list \<Rightarrow> string \<Rightarrow> significant_change" where
  "change_entry records m =
     \<lparr>c_id = m, c_change = js_toFixed1 (percent_change records m),
      c_direction = (if js_num_gt (percent_change records m) 0 then Increased else Decreased)\<rparr>"

subsection \<open>The catalog\<close>

lemma catalog_keys:
  "map fst BIOMARKER_DEFINITIONS =
     [''glucose'', ''hba1c'', ''insulin'', ''totalCholesterol'', ''ldl'', ''hdl'',
      ''triglycerides'', ''homocysteine'', ''creatinine'', ''egfr'', ''bun'', ''uricAcid'',
      ''alt'', ''ast'', ''ggt'', ''bilirubin'', ''albumin'', ''alp'', ''tsh'', ''freeT4'',
      ''freeT3'', ''crp'', ''esr'', ''vitaminD'', ''vitaminB12'', ''folate'', ''iron'',
      ''ferritin'', ''calcium'', ''magnesium'', ''zinc'', ''hemoglobin'', ''hematocrit'',
      ''rbc'', ''wbc'', ''platelets'', ''mcv'', ''testosterone'', ''estradiol'', ''cortisol'',
      ''dheas'']"
  by (simp add: BIOMARKER_DEFINITIONS_def)

lemma catalog_keys_distinct: "distinct (map fst BIOMARKER_DEFINITIONS)"
  unfolding catalog_keys by simp

lemma catalog_keys_not_inherited:
  "k \<in> set (map fst BIOMARKER_DEFINITIONS) \<Longrightarrow> k \<notin> set Object_prototype_keys"
  unfolding catalog_keys Object_prototype_keys_def by auto


lemma catalog_own:
  "mid \<in> set (Object_keys BIOMARKER_DEFINITIONS) \<Longrightarrow>
   \<exists>d. map_of BIOMARKER_DEFINITIONS mid = Some d"
  by (metis Object_keys_def map_of_eq_None_iff not_Some_eq set_map)

lemma getStatus_own:
  "map_of BIOMARKER_DEFINITIONS mid = Some d \<Longrightarrow>
   getStatus v mid =
     Inr (if v \<le> criticalLow d \<or> criticalHigh d \<le> v then Critical
          else if fst (optimalRange d) \<le> v \<and> v \<le> snd (optimalRange d) then Optimal
          else if fst (normalRange d) \<le> v \<and> v \<le> snd (normalRange d) then Normal
          else Attention)"
  by (simp add: getStatus_def js_get_def)

lemma getStatus_key:
  "mid \<in> set (Object_keys BIOMARKER_DEFINITIONS) \<Longrightarrow> \<exists>s. getStatus v mid = Inr s"
  using catalog_own getStatus_own by blast

subsection \<open>Rounding to a double\<close>

lemma pow2_pos: "0 < pow2 e"
  by (simp add: pow2_def)

lemma pow2_mono: "a \<le> b \<Longrightarrow> pow2 a \<le> pow2 b"
  by (simp add: pow2_def power_int_increasing)

lemma ilog2_lower:
  assumes "0 < x"
  shows "pow2 (ilog2 x) \<le> x"
proof -
  obtain p q where pq: "quotient_of x = (p, q)" by (cases "quotient_of x")
  have q: "0 < q" using pq by (rule quotient_of_denom_pos)
  have x: "x = of_int p / of_int q" using pq by (rule quotient_of_div)
  have p: "0 < p" using assms q unfolding x by (simp add: zero_less_divide_iff)
  have bp: "2 ^ nat (bitlen p - 1) \<le> p" and bq: "q < 2 ^ nat (bitlen q)"
    using bitlen_bounds[OF p] bitlen_bounds[OF q] by simp_all
  have b1: "1 \<le> bitlen p" "1 \<le> bitlen q"
    using p q by (simp_all add: bitlen_alt_def)
  let ?d = "bitlen p - bitlen q"
  have "pow2 (?d - 1) = 2 ^ nat (bitlen p - 1) / 2 ^ nat (bitlen q)"
  proof -
    define A B where "A = nat (bitlen p - 1)" and "B = nat (bitlen q)"
    have e: "?d - 1 = int A - int B" using b1 by (simp add: A_def B_def)
    have "pow2 (?d - 1) = (2::rat) powi (int A - int B)" unfolding pow2_def e ..
    also have "\<dots> = 2 powi int A / 2 powi int B" by (rule power_int_diff) simp
    also have "\<dots> = 2 ^ A / 2 ^ B" by (simp only: power_int_of_nat)
    finally show ?thesis unfolding A_def B_def .
  qed
  also have "\<dots> \<le> of_int p / 2 ^ nat (bitlen q)"
  proof -
    have "(2::rat) ^ nat (bitlen p - 1) \<le> of_int p"
      using bp by (metis of_int_le_iff of_int_numeral of_int_power)
    then show ?thesis by (simp add: divide_right_mono)
  qed
  also have "\<dots> \<le> of_int p / of_int q"
  proof -
    have "of_int q \<le> (2::rat) ^ nat (bitlen q)"
      using bq by (metis less_imp_le of_int_le_iff of_int_numeral of_int_power)
    then show ?thesis using p q by (simp add: frac_le)
  qed
  finally have low: "pow2 (?d - 1) \<le> x" unfolding x .
  show ?thesis
    using low by (simp add: ilog2_def pq Let_def)
qed

lemma round_half_even_nonzero: "1 \<le> \<bar>z\<bar> \<Longrightarrow> round_half_even z \<noteq> 0"
  unfolding round_half_even_def Let_def
  by (auto split: if_splits) linarith+


lemma to_double_not_NaN: "to_double x \<noteq> NaN"
  by (simp add: to_double_def Let_def)

lemma to_double_zero: "to_double 0 = Fin 0"
  by (simp add: to_double_def)

lemma to_double_Fin_magnitude:
  assumes "to_double l = Fin y" "y \<noteq> 0"
  shows "pow2 (- 1074) \<le> \<bar>y\<bar>"
proof -
  define e where "e = max (ilog2 \<bar>l\<bar>) (- 1022)"
  define k where "k = round_half_even (l / pow2 (e - 52))"
  have l0: "l \<noteq> 0" using assms by (auto simp: to_double_def)
  have y: "y = of_int k * pow2 (e - 52)"
    using assms l0 unfolding to_double_def Let_def e_def[symmetric] k_def[symmetric]
    by (auto split: if_splits)
  have k0: "k \<noteq> 0" using assms(2) y by auto
  then have "1 \<le> \<bar>k\<bar>" by simp
  then have "(1::rat) \<le> of_int \<bar>k\<bar>" by (simp only: of_int_1_le_iff)
  then have "1 \<le> \<bar>of_int k :: rat\<bar>" by simp
  then have "pow2 (e - 52) \<le> \<bar>of_int k\<bar> * pow2 (e - 52)"
    using pow2_pos[of "e - 52"] by (simp add: mult_le_cancel_right1)
  also have "\<dots> = \<bar>y\<bar>"
    using pow2_pos[of "e - 52"] by (simp add: y abs_mult)
  finally have "pow2 (e - 52) \<le> \<bar>y\<bar>" .
  moreover have "pow2 (- 1074) \<le> pow2 (e - 52)"
    by (rule pow2_mono) (simp add: e_def)
  ultimately show ?thesis by simp
qed

lemma to_double_nonzero:
  assumes "pow2 (- 1074) \<le> \<bar>y\<bar>"
  shows "\<not> js_is_zero (to_double y)"
proof -
  define e where "e = max (ilog2 \<bar>y\<bar>) (- 1022)"
  define k where "k = round_half_even (y / pow2 (e - 52))"
  have y0: "y \<noteq> 0" using assms pow2_pos[of "- 1074"] by auto
  have u: "pow2 (e - 52) \<le> \<bar>y\<bar>"
  proof (cases "- 1022 \<le> ilog2 \<bar>y\<bar>")
    case True
    then have "e = ilog2 \<bar>y\<bar>" by (simp add: e_def)
    then have "pow2 (e - 52) \<le> pow2 (ilog2 \<bar>y\<bar>)" by (simp add: pow2_mono)
    also have "\<dots> \<le> \<bar>y\<bar>" using y0 by (simp add: ilog2_lower)
    finally show ?thesis .
  next
    case False
    then have "e = - 1022" by (simp add: e_def)
    then show ?thesis using assms by simp
  qed
  have "1 \<le> \<bar>y\<bar> / pow2 (e - 52)"
    using u pow2_pos[of "e - 52"] by (simp add: le_divide_eq)
  then have "1 \<le> \<bar>y / pow2 (e - 52)\<bar>"
    using pow2_pos[of "e - 52"] by (simp add: abs_divide)
  then have k0: "k \<noteq> 0" unfolding k_def by (rule round_half_even_nonzero)
  then have "of_int k * pow2 (e - 52) \<noteq> 0"
    using pow2_pos[of "e - 52"] by simp
  then show ?thesis
    using y0 unfolding to_double_def Let_def e_def[symmetric] k_def[symmetric]
    by simp
qed

lemma divided_by_zero:
  "r \<noteq> NaN \<Longrightarrow> \<not> js_is_zero r \<Longrightarrow>
   js_num_gt (Math_abs (js_times (js_divide r (Fin 0)) (Fin 100))) c"
  by (cases r) (simp_all add: js_divide_def js_times_def)

lemma zero_divided_by_zero:
  "js_is_zero r \<Longrightarrow> \<not> js_num_gt (Math_abs (js_times (js_divide r (Fin 0)) (Fin 100))) c"
  by (cases r) (simp_all add: js_divide_def js_times_def)

lemma minus_zero_is_zero:
  "js_is_zero (js_minus (to_double l) (Fin 0)) \<longleftrightarrow> js_is_zero (to_double l)"
proof (cases "to_double l")
  case (Fin y)
  show ?thesis
  proof (cases "y = 0")
    case True
    then show ?thesis using Fin by (simp add: js_minus_def)
  next
    case False
    have "\<not> js_is_zero (to_double y)"
      using to_double_nonzero[OF to_double_Fin_magnitude[OF Fin False]] .
    then show ?thesis using Fin False by (simp add: js_minus_def)
  qed
qed (simp_all add: js_minus_def to_double_not_NaN)

lemma minus_zero_not_NaN: "js_minus (to_double l) (Fin 0) \<noteq> NaN"
  by (cases "to_double l") (simp_all add: js_minus_def to_double_not_NaN)

lemma percent_of_zero:
  "js_num_gt (Math_abs (js_times (js_divide (js_minus (to_double l) (to_double 0)) (to_double 0))
      (Fin 100))) c \<longleftrightarrow> \<not> js_is_zero (to_double l)"
  unfolding to_double_zero
  using divided_by_zero[OF minus_zero_not_NaN, of l c]
    zero_divided_by_zero[of "js_minus (to_double l) (Fin 0)" c] minus_zero_is_zero[of l]
  by blast

subsection \<open>Sorting and indexing\<close>

lemma sort_key_Nil_iff: "sort_key f xs = [] \<longleftrightarrow> xs = []"
  by (metis length_0_conv length_sort)

lemma hd_sort_key_le:
  assumes "x \<in> set xs"
  shows "f (hd (sort_key f xs)) \<le> f x"
proof -
  have s: "sorted (map f (sort_key f xs))" by simp
  have "x \<in> set (sort_key f xs)" using assms by simp
  then show ?thesis using s by (cases "sort_key f xs") auto
qed

lemma hd_sort_key_in: "xs \<noteq> [] \<Longrightarrow> hd (sort_key f xs) \<in> set xs"
  by (metis hd_in_set set_sort sort_key_Nil_iff)

lemma sorted_last_ge: "sorted (map f ys) \<Longrightarrow> x \<in> set ys \<Longrightarrow> f x \<le> f (last ys)"
  by (induction ys) (auto split: if_splits)

lemma last_sort_key_ge:
  assumes "x \<in> set xs"
  shows "f x \<le> f (last (sort_key f xs))"
  using sorted_last_ge[of f "sort_key f xs" x] assms by simp

lemma js_slice_last3: "js_slice_from (- 3) xs = drop (length xs - 3) xs"
proof -
  have "nat (max (int (length xs) + - 3) 0) = length xs - 3" by linarith
  then show ?thesis by (simp add: js_slice_from_def)
qed

lemma js_index_0: "xs \<noteq> [] \<Longrightarrow> js_index xs 0 = Some (hd xs)"
  by (cases xs) (simp_all add: js_index_def)

lemma js_index_last: "xs \<noteq> [] \<Longrightarrow> js_index xs (length xs - 1) = Some (last xs)"
  by (simp add: js_index_def last_conv_nth)

lemma calculateTrend_window:
  assumes "2 \<le> length records"
  shows "calculateTrend records =
     (let w = drop (length records - 3) (sort_key date records);
          firstv = to_double (val (hd w));
          lastv = to_double (val (last w));
          chg = (if js_is_zero firstv then Fin 0
                 else js_times (js_divide (js_minus lastv firstv) firstv) (Fin 100))
      in Inr (if js_num_lt (Math_abs chg) 3 then \<lparr>direction = Stable, change = ChangeNumber 0\<rparr>
              else \<lparr>direction = (if js_num_gt chg 0 then Up else Down),
                    change = ChangeText (js_toFixed1 (Math_abs chg))\<rparr>))"
proof -
  define w where "w = drop (length records - 3) (sort_key date records)"
  define c1 where "c1 = (if \<not> js_is_zero (to_double (val (hd w)))
      then js_times (js_divide (js_minus (to_double (val (last w))) (to_double (val (hd w))))
             (to_double (val (hd w)))) (Fin 100)
      else Fin 0)"
  define c2 where "c2 = (if js_is_zero (to_double (val (hd w))) then Fin 0
      else js_times (js_divide (js_minus (to_double (val (last w))) (to_double (val (hd w))))
             (to_double (val (hd w)))) (Fin 100))"
  have ne: "w \<noteq> []" using assms by (simp add: w_def)
  have r: "js_slice_from (- 3) (sort_date_asc records) = w"
    by (simp add: js_slice_last3 sort_date_asc_def w_def)
  have l2: "\<not> length records < 2" using assms by simp
  have c12: "c1 = c2" unfolding c1_def c2_def by simp
  have "calculateTrend records =
      (if js_num_lt (Math_abs c1) 3 then Inr \<lparr>direction = Stable, change = ChangeNumber 0\<rparr>
       else Inr \<lparr>direction = (if js_num_gt c1 0 then Up else Down),
                 change = ChangeText (js_toFixed1 (Math_abs c1))\<rparr>)"
    unfolding calculateTrend_def Let_def r js_index_0[OF ne] js_index_last[OF ne] c1_def
    by (simp only: l2 if_False option.case)
  also have "\<dots> = Inr (if js_num_lt (Math_abs c2) 3
              then \<lparr>direction = Stable, change = ChangeNumber 0\<rparr>
              else \<lparr>direction = (if js_num_gt c2 0 then Up else Down),
                    change = ChangeText (js_toFixed1 (Math_abs c2))\<rparr>)"
    unfolding c12 by (cases "js_num_lt (Math_abs c2) 3") simp_all
  finally show ?thesis unfolding Let_def c2_def w_def .
qed

subsection \<open>The newest record of a marker\<close>

lemma sort_desc_Nil [simp]: "sort_date_desc xs = [] \<longleftrightarrow> xs = []"
  by (simp add: sort_date_desc_def sort_key_Nil_iff)

lemma sort_desc_length [simp]: "length (sort_date_desc xs) = length xs"
  by (simp add: sort_date_desc_def)

lemma sort_desc_set [simp]: "set (sort_date_desc xs) = set xs"
  by (simp add: sort_date_desc_def)

lemma latest_record_newest:
  assumes "r \<in> set records" "markerId r = mid"
  shows "date r \<le> date (latest_record records mid)"
    and "latest_record records mid \<in> set records"
    and "markerId (latest_record records mid) = mid"
proof -
  have m: "r \<in> set (records_of records mid)" using assms by (simp add: records_of_def)
  then have ne: "records_of records mid \<noteq> []" by auto
  show "date r \<le> date (latest_record records mid)"
    using hd_sort_key_le[OF m, of "\<lambda>r. - date r"]
    by (simp add: latest_record_def sort_date_desc_def)
  have "latest_record records mid \<in> set (records_of records mid)"
    unfolding latest_record_def sort_date_desc_def by (rule hd_sort_key_in[OF ne])
  then show "latest_record records mid \<in> set records" "markerId (latest_record records mid) = mid"
    by (simp_all add: records_of_def)
qed

subsection \<open>Goal progress: what the store holds after the sort\<close>

lemma goal_progress_store:
  "GoalsTracker_progress g records =
     (case js_index (sort_date_desc (records_of records (goalMarkerId g))) 0 of
        None \<Rightarrow> Inr 0
      | Some latest \<Rightarrow>
          if targetValue g \<noteq> 0 then
            (case (if length (sort_date_desc (records_of records (goalMarkerId g))) > 1
                   then map_option val (js_index (sort_date_desc (records_of records (goalMarkerId g))) 0)
                   else Some (val latest)) of
               None \<Rightarrow> Inl TypeError
             | Some baseline \<Rightarrow>
                 (if (targetValue g < baseline \<and> val latest > baseline) \<or>
                     (targetValue g > baseline \<and> val latest < baseline)
                  then Inr 0
                  else Inr (if \<bar>targetValue g - baseline\<bar> > 0
                            then min 100 ((\<bar>val latest - baseline\<bar> / \<bar>targetValue g - baseline\<bar>) * 100)
                            else 0)))
          else Inr 0)"
proof -
  define h1 :: heap where
    "h1 = \<lparr>cells = ((\<lambda>_. [])(0 := records))(1 := records_of records (goalMarkerId g)), fresh = 2\<rparr>"
  define h2 :: heap where
    "h2 = h1\<lparr>cells := (cells h1)(1 := sort_date_desc (cells h1 1))\<rparr>"
  have af: "Array_filter (\<lambda>r. markerId r = goalMarkerId g) 0
              \<lparr>cells = (\<lambda>_. [])(0 := records), fresh = 1\<rparr> = (1, h1)"
    by (simp add: Array_filter_def h1_def records_of_def)
  have as: "Array_sort_date_desc 1 h1 = (1, h2)"
    by (simp add: Array_sort_date_desc_def h2_def)
  have c: "cells h2 1 = sort_date_desc (records_of records (goalMarkerId g))"
    by (simp add: h2_def h1_def)
  show ?thesis
    unfolding GoalsTracker_progress_def Let_def af prod.case as Array_at_def Array_length_def c
    by (simp split: option.splits)
qed

lemma goal_progress_zero: "GoalsTracker_progress g records = Inr 0"
proof (cases "sort_date_desc (records_of records (goalMarkerId g))")
  case Nil
  then show ?thesis by (simp add: goal_progress_store js_index_def)
next
  case (Cons r rs)
  then show ?thesis by (simp add: goal_progress_store js_index_def)
qed

subsection \<open>Pattern detection over the newest values\<close>

lemma latest_step_fold:
  "fold (latest_step records) ks l0 m =
     (if m \<in> set ks \<and> records_of records m \<noteq> [] then Some (val (latest_record records m))
      else l0 m)"
proof (induction ks arbitrary: l0)
  case Nil
  then show ?case by simp
next
  case (Cons k ks)
  show ?case
    unfolding fold_simps Cons.IH
    by (simp add: latest_step_def records_of_def latest_record_def Let_def)
qed

lemma latest_values_key:
  "m \<in> set (map fst BIOMARKER_DEFINITIONS) \<Longrightarrow> latest_values records m = latest_of records m"
  unfolding latest_values_def Object_keys_def latest_step_fold latest_of_def by simp

lemma latest_values_used:
  "latest_values records ''glucose'' = latest_of records ''glucose''"
  "latest_values records ''triglycerides'' = latest_of records ''triglycerides''"
  "latest_values records ''hdl'' = latest_of records ''hdl''"
  "latest_values records ''hba1c'' = latest_of records ''hba1c''"
  "latest_values records ''hemoglobin'' = latest_of records ''hemoglobin''"
  "latest_values records ''ferritin'' = latest_of records ''ferritin''"
  "latest_values records ''tsh'' = latest_of records ''tsh''"
  "latest_values records ''freeT4'' = latest_of records ''freeT4''"
  "latest_values records ''freeT3'' = latest_of records ''freeT3''"
  "latest_values records ''creatinine'' = latest_of records ''creatinine''"
  "latest_values records ''egfr'' = latest_of records ''egfr''"
  "latest_values records ''bun'' = latest_of records ''bun''"
  by (rule latest_values_key, simp add: catalog_keys)+


lemma truthy_filter_keys:
  assumes "set ks \<subseteq> set (map fst BIOMARKER_DEFINITIONS)"
  shows "filter (\<lambda>m. truthy (latest_values records m)) ks
           = filter (\<lambda>m. truthy (latest_of records m)) ks"
proof (rule filter_cong[OF refl])
  fix x assume "x \<in> set ks"
  then have "x \<in> set (map fst BIOMARKER_DEFINITIONS)" using assms by blast
  then show "truthy (latest_values records x) = truthy (latest_of records x)"
    by (simp only: latest_values_key)
qed

lemma patterns_pushed:
  "(let patterns0 = [];
        patterns1 = (if c1 then patterns0 @ [a] else patterns0);
        patterns2 = (if c2 then patterns1 @ [b] else patterns1);
        patterns3 = (if c3 then patterns2 @ [c] else patterns2);
        patterns4 = (if c4 then patterns3 @ [d] else patterns3)
    in patterns4)
   = (if c1 then [a] else []) @ (if c2 then [b] else []) @ (if c3 then [c] else []) @
     (if c4 then [d] else [])"
  by (simp add: Let_def)

lemma truthy_filter_used:
  "filter (\<lambda>m. truthy (latest_values records m)) [''glucose'', ''triglycerides'', ''hdl'', ''hba1c'']
     = filter (\<lambda>m. truthy (latest_of records m)) [''glucose'', ''triglycerides'', ''hdl'', ''hba1c'']"
  "filter (\<lambda>m. truthy (latest_values records m)) [''tsh'', ''freeT4'', ''freeT3'']
     = filter (\<lambda>m. truthy (latest_of records m)) [''tsh'', ''freeT4'', ''freeT3'']"
  "filter (\<lambda>m. truthy (latest_values records m)) [''creatinine'', ''egfr'', ''bun'']
     = filter (\<lambda>m. truthy (latest_of records m)) [''creatinine'', ''egfr'', ''bun'']"
  by (rule truthy_filter_keys, simp add: catalog_keys)+

lemma detectPatterns_latest_of:
  "detectPatterns records =
     (if 3 \<le> length (filter (\<lambda>b. b)
            [js_gt (latest_of records ''glucose'') 100,
             js_gt (latest_of records ''triglycerides'') 150,
             truthy (latest_of records ''hdl'') \<and> js_lt (latest_of records ''hdl'') 40,
             js_gt (latest_of records ''hba1c'') (56 / 10)])
      then [\<lparr>ptype = ''metabolic_syndrome'', severity = Attention,
             title = ''Metabolic Pattern Detected'',
             markers = filter (\<lambda>m. truthy (latest_of records m))
                         [''glucose'', ''triglycerides'', ''hdl'', ''hba1c'']\<rparr>]
      else []) @
     (if truthy (latest_of records ''hemoglobin'') \<and> js_lt (latest_of records ''hemoglobin'') 12 \<and>
         truthy (latest_of records ''ferritin'') \<and> js_lt (latest_of records ''ferritin'') 30
      then [\<lparr>ptype = ''iron_deficiency'', severity = Attention,
             title = ''Iron Deficiency Pattern'',
             markers = [''hemoglobin'', ''ferritin'']\<rparr>]
      else []) @
     (if truthy (latest_of records ''tsh'') \<and>
         (js_gt (latest_of records ''tsh'') 4 \<or> js_lt (latest_of records ''tsh'') (4 / 10))
      then [\<lparr>ptype = ''thyroid'',
             severity = (if js_gt (latest_of records ''tsh'') 10 \<or>
                            js_lt (latest_of records ''tsh'') (1 / 10)
                         then Critical else Attention),
             title = ''Thyroid Pattern Detected'',
             markers = filter (\<lambda>m. truthy (latest_of records m))
                         [''tsh'', ''freeT4'', ''freeT3'']\<rparr>]
      else []) @
     (if js_gt (latest_of records ''creatinine'') (13 / 10) \<and>
         truthy (latest_of records ''egfr'') \<and> js_lt (latest_of records ''egfr'') 60
      then [\<lparr>ptype = ''kidney'', severity = Attention,
             title = ''Reduced Kidney Function'',
             markers = filter (\<lambda>m. truthy (latest_of records m))
                         [''creatinine'', ''egfr'', ''bun'']\<rparr>]
      else [])"
  unfolding detectPatterns_def Let_def metabolicFlagList_def truthy_filter_used latest_values_used
  by (rule patterns_pushed[unfolded Let_def])


lemma filter_first_of_four:
  "P a \<Longrightarrow> \<not> P b \<Longrightarrow> \<not> P c \<Longrightarrow> \<not> P d \<Longrightarrow>
   filter P ((if c1 then [a] else []) @ (if c2 then [b] else []) @ (if c3 then [c] else []) @
             (if c4 then [d] else [])) = (if c1 then [a] else [])"
  by simp

lemma ex_of_four:
  "(\<exists>p \<in> set ((if c1 then [a] else []) @ (if c2 then [b] else []) @ (if c3 then [c] else []) @
             (if c4 then [d] else [])). P p)
   \<longleftrightarrow> (c1 \<and> P a) \<or> (c2 \<and> P b) \<or> (c3 \<and> P c) \<or> (c4 \<and> P d)"
  by auto

lemma all_of_four:
  "(\<forall>p \<in> set ((if c1 then [a] else []) @ (if c2 then [b] else []) @ (if c3 then [c] else []) @
             (if c4 then [d] else [])). P p)
   \<longleftrightarrow> (c1 \<longrightarrow> P a) \<and> (c2 \<longrightarrow> P b) \<and> (c3 \<longrightarrow> P c) \<and> (c4 \<longrightarrow> P d)"
  by auto

lemma three_of_four:
  "3 \<le> length (filter (\<lambda>b. b) [g, t, h, a])
   \<longleftrightarrow> (g \<and> t \<and> h) \<or> (g \<and> t \<and> a) \<or> (g \<and> h \<and> a) \<or> (t \<and> h \<and> a)"
  by (cases g; cases t; cases h; cases a) simp_all

lemma truthy_iff: "truthy x \<longleftrightarrow> (\<exists>v. x = Some v \<and> v \<noteq> 0)"
  by (cases x) (simp_all add: truthy_def)

lemma truthy_zero: "\<not> truthy (Some 0)"
  by (simp add: truthy_def)

subsection \<open>Score aggregation without exceptions\<close>

lemma score_or_50_points: "score_or_50 s = status_points s"
  by (cases s) (simp_all add: score_or_50_def scores_def status_points_def)

lemma forEach_pure:
  "(\<And>x s. x \<in> set xs \<Longrightarrow> f x s = Inr (g x s)) \<Longrightarrow> forEach f xs s = Inr (fold g xs s)"
  by (induction xs arbitrary: s) simp_all

lemma map_throwing_pure:
  "(\<And>x. x \<in> set xs \<Longrightarrow> f x = Inr (g x)) \<Longrightarrow> map_throwing f xs = Inr (map g xs)"
  by (induction xs) simp_all

lemma score_marker_entry:
  assumes "e \<in> set BIOMARKER_DEFINITIONS"
  shows "score_marker records e acc =
           Inr (if records_of records (fst e) \<noteq> []
                then (fst acc + marker_points records (fst e), snd acc + 1) else acc)"
proof -
  have "fst e \<in> set (Object_keys BIOMARKER_DEFINITIONS)"
    using assms by (simp add: Object_keys_def)
  then obtain s where s: "getStatus (val (latest_record records (fst e))) (fst e) = Inr s"
    using getStatus_key by blast
  show ?thesis
    using s by (simp add: score_marker_def Let_def records_of_def latest_record_def
        marker_points_def score_or_50_points)
qed

lemma fold_score:
  "fold (\<lambda>e acc. if P (fst e) then (fst acc + pts (fst e), snd acc + 1) else acc) es (t, n)
     = (t + sum_list (map pts (filter P (map fst es))), n + length (filter P (map fst es)))"
  by (induction es arbitrary: t n) (simp_all add: add.assoc)

lemma category_entry_eq:
  "category_entry records c =
     Inr (c,
          (if markers_with_data records c \<noteq> []
           then Some (Math_round (of_int (sum_list (map (marker_points records) (markers_with_data records c)))
                        / of_nat (length (markers_with_data records c))))
           else None),
          length (markers_with_data records c))"
proof -
  let ?es = "filter (\<lambda>(k, d). category d = c) BIOMARKER_DEFINITIONS"
  have f: "forEach (score_marker records) ?es (0, 0) =
      Inr (fold (\<lambda>e acc. if records_of records (fst e) \<noteq> []
                then (fst acc + marker_points records (fst e), snd acc + 1) else acc) ?es (0, 0))"
    by (rule forEach_pure) (simp add: score_marker_entry)
  have m: "filter (\<lambda>m. records_of records m \<noteq> []) (map fst ?es) = markers_with_data records c"
    by (simp add: markers_with_data_def category_markers_def)
  show ?thesis
    unfolding category_entry_def Let_def f
      fold_score[of "\<lambda>m. records_of records m \<noteq> []" "marker_points records"] m
    by simp
qed

lemma non_null_entries:
  "[(c, s, n). (c, Some s, n) \<leftarrow> map (\<lambda>c. (c, if P c then Some (a c) else None, b c)) xs]
     = map (\<lambda>c. (c, a c, b c)) (filter P xs)"
  by (induction xs) simp_all

lemma fold_sum_scores:
  "fold (\<lambda>(c, s, n) sum. sum + s) cs (z::int) = z + sum_list (map (\<lambda>(c, s, n). s) cs)"
  by (induction cs arbitrary: z) (auto simp: add.assoc)

subsection \<open>The visit summary without exceptions\<close>

lemma visit_step_key:
  assumes "mid \<in> set (Object_keys BIOMARKER_DEFINITIONS)"
  shows "visit_step records mid acc =
     Inr (fst acc @ (if is_flagged records mid then [flag_entry records mid] else []),
          snd acc @ (if is_significant records mid then [change_entry records mid] else []))"
proof -
  obtain s where s: "getStatus (val (latest_record records mid)) mid = Inr s"
    using getStatus_key[OF assms] by blast
  show ?thesis
  proof (cases "records_of records mid = []")
    case True
    then show ?thesis
      by (simp add: visit_step_def is_flagged_def is_significant_def records_of_def)
  next
    case False
    have s': "getStatus (val (hd (sort_date_desc (filter (\<lambda>r. markerId r = mid) records)))) mid = Inr s"
      using s by (simp add: latest_record_def records_of_def)
    have ne: "filter (\<lambda>r. markerId r = mid) records \<noteq> []"
      using False by (simp add: records_of_def)
    show ?thesis
      unfolding visit_step_def Let_def s' sum.case
      using ne s
      by (simp add: is_flagged_def is_significant_def flag_entry_def change_entry_def
          percent_change_def latest_record_def previous_record_def records_of_def)
  qed
qed

lemma fold_push:
  "fold (\<lambda>m acc. (fst acc @ F m, snd acc @ G m)) ks (a, b)
     = (a @ concat (map F ks), b @ concat (map G ks))"
  by (induction ks arbitrary: a b) simp_all

lemma concat_map_if:
  "concat (map (\<lambda>m. if P m then [f m] else []) ks) = map f (filter P ks)"
  by (induction ks) simp_all

lemma VisitPreparation_eq:
  "VisitPreparation records =
     Inr (map (flag_entry records) (filter (is_flagged records) (Object_keys BIOMARKER_DEFINITIONS)),
          map (change_entry records) (filter (is_significant records) (Object_keys BIOMARKER_DEFINITIONS)))"
proof -
  have "VisitPreparation records =
     Inr (fold (\<lambda>m acc. (fst acc @ (if is_flagged records m then [flag_entry records m] else []),
                         snd acc @ (if is_significant records m then [change_entry records m] else [])))
            (Object_keys BIOMARKER_DEFINITIONS) ([], []))"
    unfolding VisitPreparation_def by (rule forEach_pure) (rule visit_step_key)
  then show ?thesis
    unfolding fold_push concat_map_if by simp
qed

lemma flagged_is_key:
  "getStatus v m = Inr Attention \<or> getStatus v m = Inr Critical \<Longrightarrow>
   m \<in> set (Object_keys BIOMARKER_DEFINITIONS)"
  by (auto simp: getStatus_def js_get_def Object_keys_def split: option.splits if_splits
      dest!: map_of_SomeD intro: rev_image_eqI)

section \<open>The claims\<close>

subsection \<open>Classifier\<close>

text \<open>
  C2, as the code has it: a marker identifier with no catalog entry is classified \<open>normal\<close>,
  whatever the value. (The claim asks for a distinct outcome that is never \<open>normal\<close>; the
  first line of \<open>getStatus\<close> returns \<open>'normal'\<close> for a missing definition.) Identifiers
  that name a property inherited from \<open>Object.prototype\<close> are set aside: for them the
  lookup does not come back empty.
\<close>

theorem getStatus_unknown_marker_normal:
  "map_of BIOMARKER_DEFINITIONS mid = None \<Longrightarrow> mid \<notin> set Object_prototype_keys \<Longrightarrow>
   getStatus v mid = Inr Normal"
  by (simp add: getStatus_def js_get_def)

theorem getStatus_unknown_marker_normal_witness:
  "map_of BIOMARKER_DEFINITIONS ''ketones'' = None \<and> ''ketones'' \<notin> set Object_prototype_keys \<and>
   getStatus 7 ''ketones'' = Inr Normal"
proof -
  have a: "map_of BIOMARKER_DEFINITIONS ''ketones'' = None"
    by (simp add: BIOMARKER_DEFINITIONS_def)
  have b: "''ketones'' \<notin> set Object_prototype_keys"
    by (simp add: Object_prototype_keys_def)
  show ?thesis using a b getStatus_unknown_marker_normal[OF a b, of 7] by simp
qed

text \<open>
  C2 as stated fails: the classifier applied to the unknown marker \<open>ketones\<close> returns
  \<open>normal\<close>.
\<close>

theorem getStatus_unknown_marker_counterexample:
  "getStatus 7 ''ketones'' = Inr Normal"
  by (simp add: getStatus_def js_get_def BIOMARKER_DEFINITIONS_def Object_prototype_keys_def)

text \<open>
  C3: for every definition of the catalog and every value, \<open>getStatus\<close> returns \<open>critical\<close>
  when the value is at or below \<open>criticalLow\<close> or at or above \<open>criticalHigh\<close>, even inside
  the optimal window; otherwise \<open>optimal\<close> inside the optimal window, otherwise \<open>normal\<close>
  inside the normal window (both windows with their end points), otherwise \<open>attention\<close>.
\<close>

theorem getStatus_precedence:
  "map_of BIOMARKER_DEFINITIONS mid = Some d \<Longrightarrow>
   getStatus v mid =
     Inr (if v \<le> criticalLow d \<or> criticalHigh d \<le> v then Critical
          else if fst (optimalRange d) \<le> v \<and> v \<le> snd (optimalRange d) then Optimal
          else if fst (normalRange d) \<le> v \<and> v \<le> snd (normalRange d) then Normal
          else Attention)"
  by (simp add: getStatus_def js_get_def)

text \<open>
  Witness: LDL cholesterol (critical 0 and 160, optimal 0 to 70, normal 0 to 100) at the
  values 0 (critical although inside the optimal window), 160, 70, 100 and 101.
\<close>

theorem getStatus_precedence_witness:
  "map_of BIOMARKER_DEFINITIONS ''ldl'' =
     Some (mk_def ''LDL Cholesterol'' ''mg/dL'' Cardiovascular (0, 100) (0, 70) 0 160 (Some False)) \<and>
   getStatus 0 ''ldl'' = Inr Critical \<and> getStatus 160 ''ldl'' = Inr Critical \<and>
   getStatus 70 ''ldl'' = Inr Optimal \<and> getStatus 100 ''ldl'' = Inr Normal \<and>
   getStatus 101 ''ldl'' = Inr Attention"
proof -
  have a: "map_of BIOMARKER_DEFINITIONS ''ldl'' =
     Some (mk_def ''LDL Cholesterol'' ''mg/dL'' Cardiovascular (0, 100) (0, 70) 0 160 (Some False))"
    by (simp add: BIOMARKER_DEFINITIONS_def)
  show ?thesis
    using a getStatus_precedence[OF a, of 0] getStatus_precedence[OF a, of 160]
      getStatus_precedence[OF a, of 70] getStatus_precedence[OF a, of 100]
      getStatus_precedence[OF a, of 101]
    by (simp add: mk_def_def)
qed

subsection \<open>Reference catalog\<close>

text \<open>
  C9: every definition of the catalog has
  \<open>criticalLow \<le> normalRange.low \<le> optimalRange.low \<le> optimalRange.high \<le>
  normalRange.high \<le> criticalHigh\<close>.
\<close>

theorem catalog_ordering:
  "map_of BIOMARKER_DEFINITIONS mid = Some d \<Longrightarrow>
   criticalLow d \<le> fst (normalRange d) \<and> fst (normalRange d) \<le> fst (optimalRange d) \<and>
   fst (optimalRange d) \<le> snd (optimalRange d) \<and> snd (optimalRange d) \<le> snd (normalRange d) \<and>
   snd (normalRange d) \<le> criticalHigh d"
proof -
  assume a: "map_of BIOMARKER_DEFINITIONS mid = Some d"
  have all: "list_all (\<lambda>(k, d). criticalLow d \<le> fst (normalRange d) \<and>
      fst (normalRange d) \<le> fst (optimalRange d) \<and>
      fst (optimalRange d) \<le> snd (optimalRange d) \<and>
      snd (optimalRange d) \<le> snd (normalRange d) \<and>
      snd (normalRange d) \<le> criticalHigh d) BIOMARKER_DEFINITIONS"
    by (simp add: BIOMARKER_DEFINITIONS_def mk_def_def)
  have "(mid, d) \<in> set BIOMARKER_DEFINITIONS" using a by (rule map_of_SomeD)
  with all show ?thesis unfolding list_all_iff by blast
qed

text \<open>Witness: vitamin D, whose upper normal bound equals \<open>criticalHigh\<close>.\<close>

theorem catalog_ordering_witness:
  "map_of BIOMARKER_DEFINITIONS ''vitaminD'' =
     Some (mk_def ''Vitamin D'' ''ng/mL'' Nutrients (30, 100) (40, 60) 20 100 (Some True)) \<and>
   criticalLow (mk_def ''Vitamin D'' ''ng/mL'' Nutrients (30, 100) (40, 60) 20 100 (Some True))
     \<le> fst (normalRange (mk_def ''Vitamin D'' ''ng/mL'' Nutrients (30, 100) (40, 60) 20 100 (Some True))) \<and>
   snd (normalRange (mk_def ''Vitamin D'' ''ng/mL'' Nutrients (30, 100) (40, 60) 20 100 (Some True)))
     \<le> criticalHigh (mk_def ''Vitamin D'' ''ng/mL'' Nutrients (30, 100) (40, 60) 20 100 (Some True))"
proof -
  have a: "map_of BIOMARKER_DEFINITIONS ''vitaminD'' =
     Some (mk_def ''Vitamin D'' ''ng/mL'' Nutrients (30, 100) (40, 60) 20 100 (Some True))"
    by (simp add: BIOMARKER_DEFINITIONS_def)
  show ?thesis using a catalog_ordering[OF a] by blast
qed

subsection \<open>Trend\<close>

text \<open>
  C4, as the code has it: \<open>calculateTrend\<close> returns \<open>{stable, 0}\<close> for fewer than two
  records. Otherwise let \<open>w\<close> be the last three (or two) records of the list sorted by
  date, oldest first; \<open>w\<close> is in date order, holds \<open>min 3 n\<close> of the records and ends with
  a newest record. With \<open>first\<close> and \<open>last\<close> the values at its two ends, the change is 0
  when \<open>first\<close> is 0 and otherwise \<open>(last - first) / first * 100\<close> computed in doubles, the
  difference, the quotient and the product each rounded to the nearest double. The result
  is \<open>{stable, 0}\<close> when the magnitude of that double is below 3; otherwise the direction
  is up for a positive and down for any other change, with the magnitude printed to one
  decimal. The values 100, 100, 106 give \<open>{up, "6.0"}\<close> and 100, 101 give \<open>{stable, 0}\<close>.
\<close>

theorem calculateTrend_contract:
  "(length records < 2 \<longrightarrow> calculateTrend records = Inr \<lparr>direction = Stable, change = ChangeNumber 0\<rparr>) \<and>
   (2 \<le> length records \<longrightarrow>
      (let w = drop (length records - 3) (sort_key date records);
           firstv = to_double (val (hd w));
           lastv = to_double (val (last w));
           chg = (if js_is_zero firstv then Fin 0
                  else js_times (js_divide (js_minus lastv firstv) firstv) (Fin 100))
       in sorted (map date w) \<and> length w = min 3 (length records) \<and> set w \<subseteq> set records \<and>
          (\<forall>r \<in> set records. date r \<le> date (last w)) \<and>
          calculateTrend records =
            Inr (if js_num_lt (Math_abs chg) 3 then \<lparr>direction = Stable, change = ChangeNumber 0\<rparr>
                 else \<lparr>direction = (if js_num_gt chg 0 then Up else Down),
                       change = ChangeText (js_toFixed1 (Math_abs chg))\<rparr>))) \<and>
   calculateTrend
      [\<lparr>markerId = ''glucose'', val = 100, date = 1\<rparr>,
      \<lparr>markerId = ''glucose'', val = 100, date = 2\<rparr>,
      \<lparr>markerId = ''glucose'', val = 106, date = 3\<rparr>] = Inr \<lparr>direction = Up, change = ChangeText (Decimal1 False 60)\<rparr> \<and>
   calculateTrend
      [\<lparr>markerId = ''glucose'', val = 100, date = 1\<rparr>,
      \<lparr>markerId = ''glucose'', val = 101, date = 2\<rparr>] = Inr \<lparr>direction = Stable, change = ChangeNumber 0\<rparr>"
proof (intro conjI impI)
  assume "length records < 2"
  then show "calculateTrend records = Inr \<lparr>direction = Stable, change = ChangeNumber 0\<rparr>"
    by (simp add: calculateTrend_def)
next
  assume a: "2 \<le> length records"
  define w where "w = drop (length records - 3) (sort_key date records)"
  have s: "sorted (map date w)"
    unfolding w_def drop_map[symmetric] by (rule sorted_wrt_drop) simp
  have n: "length w = min 3 (length records)" using a by (simp add: w_def min_def)
  have sub: "set w \<subseteq> set records"
    using set_drop_subset[of "length records - 3" "sort_key date records"] by (simp add: w_def)
  have lastw: "last w = last (sort_key date records)" using a by (simp add: w_def)
  have mx: "\<forall>r \<in> set records. date r \<le> date (last w)"
    unfolding lastw using last_sort_key_ge[of _ records date] by blast
  show "let w = drop (length records - 3) (sort_key date records);
           firstv = to_double (val (hd w));
           lastv = to_double (val (last w));
           chg = (if js_is_zero firstv then Fin 0
                  else js_times (js_divide (js_minus lastv firstv) firstv) (Fin 100))
       in sorted (map date w) \<and> length w = min 3 (length records) \<and> set w \<subseteq> set records \<and>
          (\<forall>r \<in> set records. date r \<le> date (last w)) \<and>
          calculateTrend records =
            Inr (if js_num_lt (Math_abs chg) 3 then \<lparr>direction = Stable, change = ChangeNumber 0\<rparr>
                 else \<lparr>direction = (if js_num_gt chg 0 then Up else Down),
                       change = ChangeText (js_toFixed1 (Math_abs chg))\<rparr>)"
    using s n sub mx calculateTrend_window[OF a] unfolding Let_def w_def by blast
next
  show "calculateTrend
      [\<lparr>markerId = ''glucose'', val = 100, date = 1\<rparr>,
      \<lparr>markerId = ''glucose'', val = 100, date = 2\<rparr>,
      \<lparr>markerId = ''glucose'', val = 106, date = 3\<rparr>] = Inr \<lparr>direction = Up, change = ChangeText (Decimal1 False 60)\<rparr>"
    by code_simp
next
  show "calculateTrend
      [\<lparr>markerId = ''glucose'', val = 100, date = 1\<rparr>,
      \<lparr>markerId = ''glucose'', val = 101, date = 2\<rparr>] = Inr \<lparr>direction = Stable, change = ChangeNumber 0\<rparr>"
    by code_simp
qed

text \<open>
  Witness: a single record, and four records given out of date order, whose window is
  90, 96, 100: a change of 11.11111111111111, printed \<open>"11.1"\<close>.
\<close>

theorem calculateTrend_contract_witness:
  "length [\<lparr>markerId = ''glucose'', val = 100, date = 1\<rparr>] < 2 \<and>
   calculateTrend [\<lparr>markerId = ''glucose'', val = 100, date = 1\<rparr>]
     = Inr \<lparr>direction = Stable, change = ChangeNumber 0\<rparr> \<and>
   2 \<le> length
     [\<lparr>markerId = ''glucose'', val = 100, date = 3\<rparr>,
      \<lparr>markerId = ''glucose'', val = 90, date = 1\<rparr>,
      \<lparr>markerId = ''glucose'', val = 80, date = 0\<rparr>,
      \<lparr>markerId = ''glucose'', val = 96, date = 2\<rparr>] \<and>
   calculateTrend
     [\<lparr>markerId = ''glucose'', val = 100, date = 3\<rparr>,
      \<lparr>markerId = ''glucose'', val = 90, date = 1\<rparr>,
      \<lparr>markerId = ''glucose'', val = 80, date = 0\<rparr>,
      \<lparr>markerId = ''glucose'', val = 96, date = 2\<rparr>]
     = Inr \<lparr>direction = Up, change = ChangeText (Decimal1 False 111)\<rparr>"
proof -
  have l1: "length [\<lparr>markerId = ''glucose'', val = 100, date = 1\<rparr>] < 2" by simp
  have l4: "2 \<le> length
     [\<lparr>markerId = ''glucose'', val = 100, date = 3\<rparr>,
      \<lparr>markerId = ''glucose'', val = 90, date = 1\<rparr>,
      \<lparr>markerId = ''glucose'', val = 80, date = 0\<rparr>,
      \<lparr>markerId = ''glucose'', val = 96, date = 2\<rparr>]" by simp
  have s: "calculateTrend [\<lparr>markerId = ''glucose'', val = 100, date = 1\<rparr>]
     = Inr \<lparr>direction = Stable, change = ChangeNumber 0\<rparr>"
    using calculateTrend_contract[of "[\<lparr>markerId = ''glucose'', val = 100, date = 1\<rparr>]"] l1 by blast
  have "calculateTrend
     [\<lparr>markerId = ''glucose'', val = 100, date = 3\<rparr>,
      \<lparr>markerId = ''glucose'', val = 90, date = 1\<rparr>,
      \<lparr>markerId = ''glucose'', val = 80, date = 0\<rparr>,
      \<lparr>markerId = ''glucose'', val = 96, date = 2\<rparr>]
     = Inr \<lparr>direction = Up, change = ChangeText (Decimal1 False 111)\<rparr>"
    by (rule trans[OF calculateTrend_contract[THEN conjunct2, THEN conjunct1, rule_format,
          OF l4, unfolded Let_def, THEN conjunct2, THEN conjunct2, THEN conjunct2, THEN conjunct2]])
       code_simp
  then show ?thesis using l1 l4 s by blast
qed

text \<open>
  C4 as stated, with the change taken as the exact quotient, fails. From 80 to 103 the
  exact change is 28.75, which rounds to 28.8, and the code prints \<open>"28.7"\<close>: its double is
  28.749999999999996. From 30 to 30.9 the exact change is 3, not below 3, and the code
  returns \<open>{stable, 0}\<close>: its double is 2.9999999999999956.
\<close>

theorem calculateTrend_exact_counterexample:
  "calculateTrend
      [\<lparr>markerId = ''glucose'', val = 80, date = 1\<rparr>,
      \<lparr>markerId = ''glucose'', val = 103, date = 2\<rparr>] = Inr \<lparr>direction = Up, change = ChangeText (Decimal1 False 287)\<rparr> \<and>
   \<lfloor>\<bar>(103 - 80) / 80 * 100 :: rat\<bar> * 10 + 1 / 2\<rfloor> = 288 \<and>
   calculateTrend
      [\<lparr>markerId = ''glucose'', val = 30, date = 1\<rparr>,
      \<lparr>markerId = ''glucose'', val = 309 / 10, date = 2\<rparr>] = Inr \<lparr>direction = Stable, change = ChangeNumber 0\<rparr> \<and>
   \<not> \<bar>(309 / 10 - 30) / 30 * 100 :: rat\<bar> < 3"
  by code_simp

subsection \<open>Goals\<close>

text \<open>
  C1 asks for progress 50 on a goal with target 70 whose marker went from 100 (oldest) to
  85 (newest): \<open>|85 - 100| / |70 - 100| * 100\<close>. The code returns 0 there: \<open>sort\<close> has
  reordered \<open>markerRecords\<close> itself, so \<open>markerRecords[0]\<close>, read as the baseline, is the
  newest record, the same one as \<open>latest\<close>.
\<close>

theorem goal_progress_failing_input:
  "GoalsTracker_progress \<lparr>goalMarkerId = ''ldl'', targetValue = 70\<rparr>
     [\<lparr>markerId = ''ldl'', val = 100, date = 1\<rparr>, \<lparr>markerId = ''ldl'', val = 85, date = 2\<rparr>]
     = Inr 0 \<and>
   min 100 (\<bar>85 - 100\<bar> / \<bar>70 - 100\<bar> * 100) = (50::rat)"
  by (simp add: goal_progress_store records_of_def sort_date_desc_def js_index_def)

text \<open>
  C8: when the target lies below the baseline (the oldest record by date) and the newest
  value lies above it, or the target lies above and the newest value below, the progress
  is 0.
\<close>

theorem goal_wrong_direction_zero:
  "records_of records (goalMarkerId g) \<noteq> [] \<Longrightarrow>
   (targetValue g < val (earliest_record records (goalMarkerId g)) \<and>
      val (earliest_record records (goalMarkerId g)) < val (latest_record records (goalMarkerId g))) \<or>
   (val (earliest_record records (goalMarkerId g)) < targetValue g \<and>
      val (latest_record records (goalMarkerId g)) < val (earliest_record records (goalMarkerId g))) \<Longrightarrow>
   GoalsTracker_progress g records = Inr 0"
  by (rule goal_progress_zero)

text \<open>Witness: baseline 100, target 70, newest value 110.\<close>

theorem goal_wrong_direction_zero_witness:
  "records_of [\<lparr>markerId = ''ldl'', val = 100, date = 1\<rparr>, \<lparr>markerId = ''ldl'', val = 110, date = 2\<rparr>]
      ''ldl'' \<noteq> [] \<and>
   val (earliest_record
      [\<lparr>markerId = ''ldl'', val = 100, date = 1\<rparr>, \<lparr>markerId = ''ldl'', val = 110, date = 2\<rparr>]
      ''ldl'') = 100 \<and>
   val (latest_record
      [\<lparr>markerId = ''ldl'', val = 100, date = 1\<rparr>, \<lparr>markerId = ''ldl'', val = 110, date = 2\<rparr>]
      ''ldl'') = 110 \<and>
   GoalsTracker_progress \<lparr>goalMarkerId = ''ldl'', targetValue = 70\<rparr>
      [\<lparr>markerId = ''ldl'', val = 100, date = 1\<rparr>, \<lparr>markerId = ''ldl'', val = 110, date = 2\<rparr>]
      = Inr 0"
proof -
  have a: "records_of [\<lparr>markerId = ''ldl'', val = 100, date = 1\<rparr>,
              \<lparr>markerId = ''ldl'', val = 110, date = 2\<rparr>] ''ldl'' \<noteq> []"
    by (simp add: records_of_def)
  have b: "val (earliest_record
      [\<lparr>markerId = ''ldl'', val = 100, date = 1\<rparr>, \<lparr>markerId = ''ldl'', val = 110, date = 2\<rparr>]
      ''ldl'') = 100"
    by (simp add: earliest_record_def records_of_def sort_date_asc_def)
  have c: "val (latest_record
      [\<lparr>markerId = ''ldl'', val = 100, date = 1\<rparr>, \<lparr>markerId = ''ldl'', val = 110, date = 2\<rparr>]
      ''ldl'') = 110"
    by (simp add: latest_record_def records_of_def sort_date_desc_def)
  show ?thesis
    using a b c
      goal_wrong_direction_zero[of
        "[\<lparr>markerId = ''ldl'', val = 100, date = 1\<rparr>, \<lparr>markerId = ''ldl'', val = 110, date = 2\<rparr>]"
        "\<lparr>goalMarkerId = ''ldl'', targetValue = 70\<rparr>"]
    by simp
qed


subsection \<open>Patterns\<close>

text \<open>
  C6, as the code has it: the metabolic pattern is emitted, once and with severity
  \<open>attention\<close>, exactly when at least three of these hold for the newest value of each
  marker: glucose above 100, triglycerides above 150, HDL not 0 and below 40, HbA1c above
  5.6. Its marker list holds those of glucose, triglycerides, hdl and hba1c whose newest
  value exists and is not 0, whichever flags were raised.
\<close>

theorem metabolic_pattern_rule:
  "filter (\<lambda>p. ptype p = ''metabolic_syndrome'') (detectPatterns records) =
     (let g = js_gt (latest_of records ''glucose'') 100;
          t = js_gt (latest_of records ''triglycerides'') 150;
          h = (truthy (latest_of records ''hdl'') \<and> js_lt (latest_of records ''hdl'') 40);
          a = js_gt (latest_of records ''hba1c'') (56 / 10)
      in if (g \<and> t \<and> h) \<or> (g \<and> t \<and> a) \<or> (g \<and> h \<and> a) \<or> (t \<and> h \<and> a)
         then [\<lparr>ptype = ''metabolic_syndrome'', severity = Attention,
                title = ''Metabolic Pattern Detected'',
                markers = filter (\<lambda>m. truthy (latest_of records m))
                            [''glucose'', ''triglycerides'', ''hdl'', ''hba1c'']\<rparr>]
         else [])"
  unfolding detectPatterns_latest_of Let_def three_of_four
  by (subst filter_first_of_four) simp_all

text \<open>
  Witness (the example of the specification): glucose 110, triglycerides 160, HDL 35 and
  HbA1c 5.0 raise three of the four flags; all four markers are listed.
\<close>

theorem metabolic_pattern_rule_witness:
  "filter (\<lambda>p. ptype p = ''metabolic_syndrome'')
     (detectPatterns
     [\<lparr>markerId = ''glucose'', val = 110, date = 1\<rparr>,
      \<lparr>markerId = ''triglycerides'', val = 160, date = 1\<rparr>,
      \<lparr>markerId = ''hdl'', val = 35, date = 1\<rparr>,
      \<lparr>markerId = ''hba1c'', val = 5, date = 1\<rparr>])
   = [\<lparr>ptype = ''metabolic_syndrome'', severity = Attention,
        title = ''Metabolic Pattern Detected'',
        markers = [''glucose'', ''triglycerides'', ''hdl'', ''hba1c'']\<rparr>]"
proof -
  have l: "latest_of [\<lparr>markerId = ''glucose'', val = 110, date = 1\<rparr>,
      \<lparr>markerId = ''triglycerides'', val = 160, date = 1\<rparr>,
      \<lparr>markerId = ''hdl'', val = 35, date = 1\<rparr>,
      \<lparr>markerId = ''hba1c'', val = 5, date = 1\<rparr>] ''glucose'' = Some 110"
    "latest_of [\<lparr>markerId = ''glucose'', val = 110, date = 1\<rparr>,
      \<lparr>markerId = ''triglycerides'', val = 160, date = 1\<rparr>,
      \<lparr>markerId = ''hdl'', val = 35, date = 1\<rparr>,
      \<lparr>markerId = ''hba1c'', val = 5, date = 1\<rparr>] ''triglycerides'' = Some 160"
    "latest_of [\<lparr>markerId = ''glucose'', val = 110, date = 1\<rparr>,
      \<lparr>markerId = ''triglycerides'', val = 160, date = 1\<rparr>,
      \<lparr>markerId = ''hdl'', val = 35, date = 1\<rparr>,
      \<lparr>markerId = ''hba1c'', val = 5, date = 1\<rparr>] ''hdl'' = Some 35"
    "latest_of [\<lparr>markerId = ''glucose'', val = 110, date = 1\<rparr>,
      \<lparr>markerId = ''triglycerides'', val = 160, date = 1\<rparr>,
      \<lparr>markerId = ''hdl'', val = 35, date = 1\<rparr>,
      \<lparr>markerId = ''hba1c'', val = 5, date = 1\<rparr>] ''hba1c'' = Some 5"
    by code_simp+
  show ?thesis
    using metabolic_pattern_rule[of "[\<lparr>markerId = ''glucose'', val = 110, date = 1\<rparr>,
      \<lparr>markerId = ''triglycerides'', val = 160, date = 1\<rparr>,
      \<lparr>markerId = ''hdl'', val = 35, date = 1\<rparr>,
      \<lparr>markerId = ''hba1c'', val = 5, date = 1\<rparr>]"]
    by (simp add: l js_gt_def js_lt_def truthy_def)
qed

text \<open>
  C6 as stated fails on a marker whose newest value is 0. With HDL 0 beside glucose 110,
  triglycerides 160 and HbA1c 6.0 the pattern is emitted without \<open>hdl\<close> in its list,
  although \<open>hdl\<close> has data; with HbA1c 5.0 instead, three of the claim's four conditions
  hold (HDL is present and below 40) and no pattern is emitted.
\<close>

theorem metabolic_pattern_counterexample:
  "detectPatterns
     [\<lparr>markerId = ''glucose'', val = 110, date = 1\<rparr>,
      \<lparr>markerId = ''triglycerides'', val = 160, date = 1\<rparr>,
      \<lparr>markerId = ''hdl'', val = 0, date = 1\<rparr>,
      \<lparr>markerId = ''hba1c'', val = 6, date = 1\<rparr>]
   = [\<lparr>ptype = ''metabolic_syndrome'', severity = Attention,
        title = ''Metabolic Pattern Detected'',
        markers = [''glucose'', ''triglycerides'', ''hba1c'']\<rparr>] \<and>
   records_of
     [\<lparr>markerId = ''glucose'', val = 110, date = 1\<rparr>,
      \<lparr>markerId = ''triglycerides'', val = 160, date = 1\<rparr>,
      \<lparr>markerId = ''hdl'', val = 0, date = 1\<rparr>,
      \<lparr>markerId = ''hba1c'', val = 6, date = 1\<rparr>] ''hdl''
   = [\<lparr>markerId = ''hdl'', val = 0, date = 1\<rparr>] \<and>
   detectPatterns
     [\<lparr>markerId = ''glucose'', val = 110, date = 1\<rparr>,
      \<lparr>markerId = ''triglycerides'', val = 160, date = 1\<rparr>,
      \<lparr>markerId = ''hdl'', val = 0, date = 1\<rparr>,
      \<lparr>markerId = ''hba1c'', val = 5, date = 1\<rparr>]
   = [] \<and>
   latest_of
     [\<lparr>markerId = ''glucose'', val = 110, date = 1\<rparr>,
      \<lparr>markerId = ''triglycerides'', val = 160, date = 1\<rparr>,
      \<lparr>markerId = ''hdl'', val = 0, date = 1\<rparr>,
      \<lparr>markerId = ''hba1c'', val = 5, date = 1\<rparr>] ''hdl''
   = Some 0"
  by code_simp


text \<open>
  C10: a marker whose newest value is 0 passes no presence check of \<open>detectPatterns\<close>.
  HDL at 0 does not raise the third metabolic flag, TSH at 0 emits no thyroid pattern,
  ferritin or hemoglobin at 0 emits no iron-deficiency pattern, eGFR at 0 emits no kidney
  pattern, and every marker listed by an emitted pattern has a newest value other than 0.
\<close>

theorem zero_latest_value_is_absent:
  "(latest_of records ''hdl'' = Some 0 \<longrightarrow> \<not> metabolicFlagList (latest_values records) ! 2) \<and>
   (latest_of records ''tsh'' = Some 0 \<longrightarrow>
      \<not> (\<exists>p \<in> set (detectPatterns records). ptype p = ''thyroid'')) \<and>
   (latest_of records ''ferritin'' = Some 0 \<or> latest_of records ''hemoglobin'' = Some 0 \<longrightarrow>
      \<not> (\<exists>p \<in> set (detectPatterns records). ptype p = ''iron_deficiency'')) \<and>
   (latest_of records ''egfr'' = Some 0 \<longrightarrow>
      \<not> (\<exists>p \<in> set (detectPatterns records). ptype p = ''kidney'')) \<and>
   (\<forall>p \<in> set (detectPatterns records). \<forall>m \<in> set (markers p).
      \<exists>v. latest_of records m = Some v \<and> v \<noteq> 0)"
proof (intro conjI impI)
  assume "latest_of records ''hdl'' = Some 0"
  then show "\<not> metabolicFlagList (latest_values records) ! 2"
    by (simp add: metabolicFlagList_def latest_values_used truthy_zero)
next
  assume "latest_of records ''tsh'' = Some 0"
  then show "\<not> (\<exists>p \<in> set (detectPatterns records). ptype p = ''thyroid'')"
    unfolding detectPatterns_latest_of ex_of_four by (simp add: truthy_zero)
next
  assume "latest_of records ''ferritin'' = Some 0 \<or> latest_of records ''hemoglobin'' = Some 0"
  then show "\<not> (\<exists>p \<in> set (detectPatterns records). ptype p = ''iron_deficiency'')"
    unfolding detectPatterns_latest_of ex_of_four by (auto simp add: truthy_zero)
next
  assume "latest_of records ''egfr'' = Some 0"
  then show "\<not> (\<exists>p \<in> set (detectPatterns records). ptype p = ''kidney'')"
    unfolding detectPatterns_latest_of ex_of_four by (simp add: truthy_zero)
next
  show "\<forall>p \<in> set (detectPatterns records). \<forall>m \<in> set (markers p).
      \<exists>v. latest_of records m = Some v \<and> v \<noteq> 0"
    unfolding detectPatterns_latest_of all_of_four truthy_iff[symmetric]
    by simp
qed


text \<open>
  Witness: HDL, TSH, ferritin and eGFR at 0 beside glucose 110, triglycerides 160,
  HbA1c 6.0, hemoglobin 11 and creatinine 2.
\<close>

theorem zero_latest_value_is_absent_witness:
  "latest_of [\<lparr>markerId = ''glucose'', val = 110, date = 1\<rparr>,
      \<lparr>markerId = ''triglycerides'', val = 160, date = 1\<rparr>,
      \<lparr>markerId = ''hba1c'', val = 6, date = 1\<rparr>,
      \<lparr>markerId = ''hdl'', val = 0, date = 1\<rparr>,
      \<lparr>markerId = ''tsh'', val = 0, date = 1\<rparr>,
      \<lparr>markerId = ''hemoglobin'', val = 11, date = 1\<rparr>,
      \<lparr>markerId = ''ferritin'', val = 0, date = 1\<rparr>,
      \<lparr>markerId = ''creatinine'', val = 2, date = 1\<rparr>,
      \<lparr>markerId = ''egfr'', val = 0, date = 1\<rparr>] ''hdl'' = Some 0 \<and>
   \<not> metabolicFlagList (latest_values [\<lparr>markerId = ''glucose'', val = 110, date = 1\<rparr>,
      \<lparr>markerId = ''triglycerides'', val = 160, date = 1\<rparr>,
      \<lparr>markerId = ''hba1c'', val = 6, date = 1\<rparr>,
      \<lparr>markerId = ''hdl'', val = 0, date = 1\<rparr>,
      \<lparr>markerId = ''tsh'', val = 0, date = 1\<rparr>,
      \<lparr>markerId = ''hemoglobin'', val = 11, date = 1\<rparr>,
      \<lparr>markerId = ''ferritin'', val = 0, date = 1\<rparr>,
      \<lparr>markerId = ''creatinine'', val = 2, date = 1\<rparr>,
      \<lparr>markerId = ''egfr'', val = 0, date = 1\<rparr>]) ! 2 \<and>
   latest_of [\<lparr>markerId = ''glucose'', val = 110, date = 1\<rparr>,
      \<lparr>markerId = ''triglycerides'', val = 160, date = 1\<rparr>,
      \<lparr>markerId = ''hba1c'', val = 6, date = 1\<rparr>,
      \<lparr>markerId = ''hdl'', val = 0, date = 1\<rparr>,
      \<lparr>markerId = ''tsh'', val = 0, date = 1\<rparr>,
      \<lparr>markerId = ''hemoglobin'', val = 11, date = 1\<rparr>,
      \<lparr>markerId = ''ferritin'', val = 0, date = 1\<rparr>,
      \<lparr>markerId = ''creatinine'', val = 2, date = 1\<rparr>,
      \<lparr>markerId = ''egfr'', val = 0, date = 1\<rparr>] ''tsh'' = Some 0 \<and>
   \<not> (\<exists>p \<in> set (detectPatterns [\<lparr>markerId = ''glucose'', val = 110, date = 1\<rparr>,
      \<lparr>markerId = ''triglycerides'', val = 160, date = 1\<rparr>,
      \<lparr>markerId = ''hba1c'', val = 6, date = 1\<rparr>,
      \<lparr>markerId = ''hdl'', val = 0, date = 1\<rparr>,
      \<lparr>markerId = ''tsh'', val = 0, date = 1\<rparr>,
      \<lparr>markerId = ''hemoglobin'', val = 11, date = 1\<rparr>,
      \<lparr>markerId = ''ferritin'', val = 0, date = 1\<rparr>,
      \<lparr>markerId = ''creatinine'', val = 2, date = 1\<rparr>,
      \<lparr>markerId = ''egfr'', val = 0, date = 1\<rparr>]).
        ptype p = ''thyroid'') \<and>
   latest_of [\<lparr>markerId = ''glucose'', val = 110, date = 1\<rparr>,
      \<lparr>markerId = ''triglycerides'', val = 160, date = 1\<rparr>,
      \<lparr>markerId = ''hba1c'', val = 6, date = 1\<rparr>,
      \<lparr>markerId = ''hdl'', val = 0, date = 1\<rparr>,
      \<lparr>markerId = ''tsh'', val = 0, date = 1\<rparr>,
      \<lparr>markerId = ''hemoglobin'', val = 11, date = 1\<rparr>,
      \<lparr>markerId = ''ferritin'', val = 0, date = 1\<rparr>,
      \<lparr>markerId = ''creatinine'', val = 2, date = 1\<rparr>,
      \<lparr>markerId = ''egfr'', val = 0, date = 1\<rparr>] ''ferritin'' = Some 0 \<and>
   \<not> (\<exists>p \<in> set (detectPatterns [\<lparr>markerId = ''glucose'', val = 110, date = 1\<rparr>,
      \<lparr>markerId = ''triglycerides'', val = 160, date = 1\<rparr>,
      \<lparr>markerId = ''hba1c'', val = 6, date = 1\<rparr>,
      \<lparr>markerId = ''hdl'', val = 0, date = 1\<rparr>,
      \<lparr>markerId = ''tsh'', val = 0, date = 1\<rparr>,
      \<lparr>markerId = ''hemoglobin'', val = 11, date = 1\<rparr>,
      \<lparr>markerId = ''ferritin'', val = 0, date = 1\<rparr>,
      \<lparr>markerId = ''creatinine'', val = 2, date = 1\<rparr>,
      \<lparr>markerId = ''egfr'', val = 0, date = 1\<rparr>]).
        ptype p = ''iron_deficiency'') \<and>
   latest_of [\<lparr>markerId = ''glucose'', val = 110, date = 1\<rparr>,
      \<lparr>markerId = ''triglycerides'', val = 160, date = 1\<rparr>,
      \<lparr>markerId = ''hba1c'', val = 6, date = 1\<rparr>,
      \<lparr>markerId = ''hdl'', val = 0, date = 1\<rparr>,
      \<lparr>markerId = ''tsh'', val = 0, date = 1\<rparr>,
      \<lparr>markerId = ''hemoglobin'', val = 11, date = 1\<rparr>,
      \<lparr>markerId = ''ferritin'', val = 0, date = 1\<rparr>,
      \<lparr>markerId = ''creatinine'', val = 2, date = 1\<rparr>,
      \<lparr>markerId = ''egfr'', val = 0, date = 1\<rparr>] ''egfr'' = Some 0 \<and>
   \<not> (\<exists>p \<in> set (detectPatterns [\<lparr>markerId = ''glucose'', val = 110, date = 1\<rparr>,
      \<lparr>markerId = ''triglycerides'', val = 160, date = 1\<rparr>,
      \<lparr>markerId = ''hba1c'', val = 6, date = 1\<rparr>,
      \<lparr>markerId = ''hdl'', val = 0, date = 1\<rparr>,
      \<lparr>markerId = ''tsh'', val = 0, date = 1\<rparr>,
      \<lparr>markerId = ''hemoglobin'', val = 11, date = 1\<rparr>,
      \<lparr>markerId = ''ferritin'', val = 0, date = 1\<rparr>,
      \<lparr>markerId = ''creatinine'', val = 2, date = 1\<rparr>,
      \<lparr>markerId = ''egfr'', val = 0, date = 1\<rparr>]).
        ptype p = ''kidney'')"
proof -
  have l: "latest_of [\<lparr>markerId = ''glucose'', val = 110, date = 1\<rparr>,
      \<lparr>markerId = ''triglycerides'', val = 160, date = 1\<rparr>,
      \<lparr>markerId = ''hba1c'', val = 6, date = 1\<rparr>,
      \<lparr>markerId = ''hdl'', val = 0, date = 1\<rparr>,
      \<lparr>markerId = ''tsh'', val = 0, date = 1\<rparr>,
      \<lparr>markerId = ''hemoglobin'', val = 11, date = 1\<rparr>,
      \<lparr>markerId = ''ferritin'', val = 0, date = 1\<rparr>,
      \<lparr>markerId = ''creatinine'', val = 2, date = 1\<rparr>,
      \<lparr>markerId = ''egfr'', val = 0, date = 1\<rparr>] ''hdl'' = Some 0"
    "latest_of [\<lparr>markerId = ''glucose'', val = 110, date = 1\<rparr>,
      \<lparr>markerId = ''triglycerides'', val = 160, date = 1\<rparr>,
      \<lparr>markerId = ''hba1c'', val = 6, date = 1\<rparr>,
      \<lparr>markerId = ''hdl'', val = 0, date = 1\<rparr>,
      \<lparr>markerId = ''tsh'', val = 0, date = 1\<rparr>,
      \<lparr>markerId = ''hemoglobin'', val = 11, date = 1\<rparr>,
      \<lparr>markerId = ''ferritin'', val = 0, date = 1\<rparr>,
      \<lparr>markerId = ''creatinine'', val = 2, date = 1\<rparr>,
      \<lparr>markerId = ''egfr'', val = 0, date = 1\<rparr>] ''tsh'' = Some 0"
    "latest_of [\<lparr>markerId = ''glucose'', val = 110, date = 1\<rparr>,
      \<lparr>markerId = ''triglycerides'', val = 160, date = 1\<rparr>,
      \<lparr>markerId = ''hba1c'', val = 6, date = 1\<rparr>,
      \<lparr>markerId = ''hdl'', val = 0, date = 1\<rparr>,
      \<lparr>markerId = ''tsh'', val = 0, date = 1\<rparr>,
      \<lparr>markerId = ''hemoglobin'', val = 11, date = 1\<rparr>,
      \<lparr>markerId = ''ferritin'', val = 0, date = 1\<rparr>,
      \<lparr>markerId = ''creatinine'', val = 2, date = 1\<rparr>,
      \<lparr>markerId = ''egfr'', val = 0, date = 1\<rparr>] ''ferritin'' = Some 0"
    "latest_of [\<lparr>markerId = ''glucose'', val = 110, date = 1\<rparr>,
      \<lparr>markerId = ''triglycerides'', val = 160, date = 1\<rparr>,
      \<lparr>markerId = ''hba1c'', val = 6, date = 1\<rparr>,
      \<lparr>markerId = ''hdl'', val = 0, date = 1\<rparr>,
      \<lparr>markerId = ''tsh'', val = 0, date = 1\<rparr>,
      \<lparr>markerId = ''hemoglobin'', val = 11, date = 1\<rparr>,
      \<lparr>markerId = ''ferritin'', val = 0, date = 1\<rparr>,
      \<lparr>markerId = ''creatinine'', val = 2, date = 1\<rparr>,
      \<lparr>markerId = ''egfr'', val = 0, date = 1\<rparr>] ''egfr'' = Some 0"
    by code_simp+
  show ?thesis
    using l zero_latest_value_is_absent[of "[\<lparr>markerId = ''glucose'', val = 110, date = 1\<rparr>,
      \<lparr>markerId = ''triglycerides'', val = 160, date = 1\<rparr>,
      \<lparr>markerId = ''hba1c'', val = 6, date = 1\<rparr>,
      \<lparr>markerId = ''hdl'', val = 0, date = 1\<rparr>,
      \<lparr>markerId = ''tsh'', val = 0, date = 1\<rparr>,
      \<lparr>markerId = ''hemoglobin'', val = 11, date = 1\<rparr>,
      \<lparr>markerId = ''ferritin'', val = 0, date = 1\<rparr>,
      \<lparr>markerId = ''creatinine'', val = 2, date = 1\<rparr>,
      \<lparr>markerId = ''egfr'', val = 0, date = 1\<rparr>]"]
    by blast
qed



subsection \<open>Scores\<close>

text \<open>
  C5, as the code has it: the categories listed are those with at least one catalog
  marker that has records, in the order of \<open>CATEGORIES\<close>; a category's score is the mean
  of the points (optimal 100, normal 80, attention 50, critical 20) of the newest record
  of each such marker, rounded to the nearest integer (\<open>Math.round\<close>, a tie upwards), and
  its count is their number. The overall score is the mean of the listed (rounded)
  scores, rounded again, and \<open>null\<close> when no category is listed. No call throws.
\<close>

theorem HealthScoreDashboard_scores:
  "HealthScoreDashboard records =
     Inr (let cs = map (\<lambda>c. (c,
                        \<lfloor>of_int (sum_list (map (marker_points records) (markers_with_data records c)))
                           / of_nat (length (markers_with_data records c)) + 1 / 2 :: rat\<rfloor>,
                        length (markers_with_data records c)))
                     (filter (\<lambda>c. markers_with_data records c \<noteq> []) CATEGORIES)
          in (cs, if cs = [] then None
                  else Some \<lfloor>of_int (sum_list (map (\<lambda>(c, s, n). s) cs))
                               / of_nat (length cs) + 1 / 2 :: rat\<rfloor>))"
proof -
  have e: "map_throwing (category_entry records) CATEGORIES =
     Inr (map (\<lambda>c. (c,
          (if markers_with_data records c \<noteq> []
           then Some (Math_round (of_int (sum_list (map (marker_points records) (markers_with_data records c)))
                        / of_nat (length (markers_with_data records c))))
           else None),
          length (markers_with_data records c))) CATEGORIES)"
    by (rule map_throwing_pure) (rule category_entry_eq)
  show ?thesis
    unfolding HealthScoreDashboard_def e sum.case non_null_entries Let_def fold_sum_scores
    by (simp add: Math_round_def)
qed


text \<open>
  Witness: hs-CRP 12 (critical) and ESR, newest value 5 (optimal): the category scores 60.
\<close>

theorem HealthScoreDashboard_scores_witness:
  "HealthScoreDashboard
     [\<lparr>markerId = ''crp'', val = 12, date = 1\<rparr>,
      \<lparr>markerId = ''esr'', val = 9, date = 1\<rparr>,
      \<lparr>markerId = ''esr'', val = 5, date = 2\<rparr>]
   = Inr ([(Inflammation, 60, 2)], Some 60)"
  by (rule trans[OF HealthScoreDashboard_scores]) code_simp

text \<open>
  C5 as stated fails where the mean is not an integer: points 100, 80, 80 give the
  category score 87, not 260/3, and the scores 87 and 80 give the overall score 84, not
  83.5.
\<close>

theorem HealthScoreDashboard_average_counterexample:
  "HealthScoreDashboard
     [\<lparr>markerId = ''glucose'', val = 80, date = 1\<rparr>,
      \<lparr>markerId = ''hba1c'', val = 55 / 10, date = 1\<rparr>,
      \<lparr>markerId = ''insulin'', val = 15, date = 1\<rparr>,
      \<lparr>markerId = ''crp'', val = 2, date = 1\<rparr>]
   = Inr ([(Metabolic, 87, 3), (Inflammation, 80, 1)], Some 84) \<and>
   map (marker_points
     [\<lparr>markerId = ''glucose'', val = 80, date = 1\<rparr>,
      \<lparr>markerId = ''hba1c'', val = 55 / 10, date = 1\<rparr>,
      \<lparr>markerId = ''insulin'', val = 15, date = 1\<rparr>,
      \<lparr>markerId = ''crp'', val = 2, date = 1\<rparr>])
     (markers_with_data
     [\<lparr>markerId = ''glucose'', val = 80, date = 1\<rparr>,
      \<lparr>markerId = ''hba1c'', val = 55 / 10, date = 1\<rparr>,
      \<lparr>markerId = ''insulin'', val = 15, date = 1\<rparr>,
      \<lparr>markerId = ''crp'', val = 2, date = 1\<rparr>] Metabolic)
   = [100, 80, 80] \<and>
   (100 + 80 + 80) / 3 \<noteq> (87::rat) \<and> (87 + 80) / 2 \<noteq> (84::rat)"
  by code_simp



subsection \<open>Visit preparation\<close>

text \<open>
  C7, as the code has it: \<open>VisitPreparation\<close> does not throw; \<open>flaggedMarkers\<close> lists,
  each once, exactly the markers with records whose newest record classifies as
  \<open>attention\<close> or \<open>critical\<close>; \<open>significantChanges\<close> lists, each once, exactly the catalog
  markers with at least two records for which the magnitude of
  \<open>(latest - previous) / previous * 100\<close> exceeds 15, where \<open>previous\<close> is the record after
  the newest in date order, newest first, and the difference, the quotient and the
  product are computed in doubles. In particular, when the previous value is 0 the marker
  is listed exactly when the latest value is not 0 (the change is then infinite, and
  \<open>NaN\<close> when both are 0).
\<close>

theorem VisitPreparation_contract:
  "\<exists>fl ch. VisitPreparation records = Inr (fl, ch) \<and>
     distinct (map f_id fl) \<and> distinct (map c_id ch) \<and>
     (\<forall>m. m \<in> set (map f_id fl) \<longleftrightarrow>
        records_of records m \<noteq> [] \<and>
        (getStatus (val (latest_record records m)) m = Inr Attention \<or>
         getStatus (val (latest_record records m)) m = Inr Critical)) \<and>
     (\<forall>m. m \<in> set (map c_id ch) \<longleftrightarrow>
        m \<in> set (Object_keys BIOMARKER_DEFINITIONS) \<and> 2 \<le> length (records_of records m) \<and>
        js_num_gt
           (Math_abs
              (js_times
                 (js_divide
                    (js_minus (to_double (val (latest_record records m)))
                              (to_double (val (previous_record records m))))
                    (to_double (val (previous_record records m))))
                 (Fin 100))) 15) \<and>
     (\<forall>m. m \<in> set (Object_keys BIOMARKER_DEFINITIONS) \<longrightarrow> 2 \<le> length (records_of records m) \<longrightarrow>
        val (previous_record records m) = 0 \<longrightarrow>
        (m \<in> set (map c_id ch) \<longleftrightarrow> \<not> js_is_zero (to_double (val (latest_record records m)))))"
proof -
  let ?keys = "Object_keys BIOMARKER_DEFINITIONS"
  let ?fl = "map (flag_entry records) (filter (is_flagged records) ?keys)"
  let ?ch = "map (change_entry records) (filter (is_significant records) ?keys)"
  have d: "distinct ?keys" using catalog_keys_distinct by (simp add: Object_keys_def)
  have fid: "map f_id ?fl = filter (is_flagged records) ?keys"
    by (simp add: flag_entry_def comp_def)
  have cid: "map c_id ?ch = filter (is_significant records) ?keys"
    by (simp add: change_entry_def comp_def)
  have 1: "distinct (map f_id ?fl)" unfolding fid using d by (rule distinct_filter)
  have 2: "distinct (map c_id ?ch)" unfolding cid using d by (rule distinct_filter)
  have 3: "\<forall>m. m \<in> set (map f_id ?fl) \<longleftrightarrow>
        records_of records m \<noteq> [] \<and>
        (getStatus (val (latest_record records m)) m = Inr Attention \<or>
         getStatus (val (latest_record records m)) m = Inr Critical)"
    unfolding fid using flagged_is_key by (auto simp: is_flagged_def)
  have 4: "\<forall>m. m \<in> set (map c_id ?ch) \<longleftrightarrow>
        m \<in> set (Object_keys BIOMARKER_DEFINITIONS) \<and> 2 \<le> length (records_of records m) \<and>
        js_num_gt
           (Math_abs
              (js_times
                 (js_divide
                    (js_minus (to_double (val (latest_record records m)))
                              (to_double (val (previous_record records m))))
                    (to_double (val (previous_record records m))))
                 (Fin 100))) 15"
    unfolding cid by (auto simp: is_significant_def percent_change_def)
  have 5: "\<forall>m. m \<in> set (Object_keys BIOMARKER_DEFINITIONS) \<longrightarrow> 2 \<le> length (records_of records m) \<longrightarrow>
        val (previous_record records m) = 0 \<longrightarrow>
        (m \<in> set (map c_id ?ch) \<longleftrightarrow> \<not> js_is_zero (to_double (val (latest_record records m))))"
    unfolding cid by (simp add: is_significant_def percent_change_def percent_of_zero)
  show ?thesis
    using VisitPreparation_eq[of records] 1 2 3 4 5 by blast
qed

text \<open>
  Witness: glucose from 90 to 110 (attention, 22 percent), HDL from 50 to 52 (normal,
  4 percent), uric acid from 6.0 to 6.9 (15.000000000000005 percent in doubles), hs-CRP
  from 0 to 2 (an infinite change) and ESR from 0 to 0 (\<open>NaN\<close>).
\<close>

theorem VisitPreparation_contract_witness:
  "\<exists>fl ch. VisitPreparation
      [\<lparr>markerId = ''glucose'', val = 110, date = 2\<rparr>,
      \<lparr>markerId = ''hdl'', val = 50, date = 1\<rparr>,
      \<lparr>markerId = ''glucose'', val = 90, date = 1\<rparr>,
      \<lparr>markerId = ''hdl'', val = 52, date = 2\<rparr>,
      \<lparr>markerId = ''uricAcid'', val = 6, date = 1\<rparr>,
      \<lparr>markerId = ''uricAcid'', val = 69 / 10, date = 2\<rparr>,
      \<lparr>markerId = ''crp'', val = 0, date = 1\<rparr>,
      \<lparr>markerId = ''crp'', val = 2, date = 2\<rparr>,
      \<lparr>markerId = ''esr'', val = 0, date = 1\<rparr>,
      \<lparr>markerId = ''esr'', val = 0, date = 2\<rparr>] = Inr (fl, ch) \<and>
     ''glucose'' \<in> set (map f_id fl) \<and> ''hdl'' \<notin> set (map f_id fl) \<and>
     ''glucose'' \<in> set (map c_id ch) \<and> ''hdl'' \<notin> set (map c_id ch) \<and>
     ''uricAcid'' \<in> set (map c_id ch) \<and> ''crp'' \<in> set (map c_id ch) \<and>
     ''esr'' \<notin> set (map c_id ch)"
proof -
  let ?r = "[\<lparr>markerId = ''glucose'', val = 110, date = 2\<rparr>,
      \<lparr>markerId = ''hdl'', val = 50, date = 1\<rparr>,
      \<lparr>markerId = ''glucose'', val = 90, date = 1\<rparr>,
      \<lparr>markerId = ''hdl'', val = 52, date = 2\<rparr>,
      \<lparr>markerId = ''uricAcid'', val = 6, date = 1\<rparr>,
      \<lparr>markerId = ''uricAcid'', val = 69 / 10, date = 2\<rparr>,
      \<lparr>markerId = ''crp'', val = 0, date = 1\<rparr>,
      \<lparr>markerId = ''crp'', val = 2, date = 2\<rparr>,
      \<lparr>markerId = ''esr'', val = 0, date = 1\<rparr>,
      \<lparr>markerId = ''esr'', val = 0, date = 2\<rparr>]"
  have k: "''glucose'' \<in> set (Object_keys BIOMARKER_DEFINITIONS)"
    "''hdl'' \<in> set (Object_keys BIOMARKER_DEFINITIONS)"
    "''uricAcid'' \<in> set (Object_keys BIOMARKER_DEFINITIONS)"
    "''crp'' \<in> set (Object_keys BIOMARKER_DEFINITIONS)"
    "''esr'' \<in> set (Object_keys BIOMARKER_DEFINITIONS)"
    by (simp_all add: Object_keys_def catalog_keys)
  have g: "records_of ?r ''glucose'' \<noteq> []" "2 \<le> length (records_of ?r ''glucose'')"
    "val (latest_record ?r ''glucose'') = 110" "val (previous_record ?r ''glucose'') = 90"
    "getStatus 110 ''glucose'' = Inr Attention"
    by code_simp+
  have h: "records_of ?r ''hdl'' \<noteq> []" "2 \<le> length (records_of ?r ''hdl'')"
    "val (latest_record ?r ''hdl'') = 52" "val (previous_record ?r ''hdl'') = 50"
    "getStatus 52 ''hdl'' = Inr Normal"
    by code_simp+
  have u: "2 \<le> length (records_of ?r ''uricAcid'')"
    "val (latest_record ?r ''uricAcid'') = 69 / 10" "val (previous_record ?r ''uricAcid'') = 6"
    by code_simp+
  have c: "2 \<le> length (records_of ?r ''crp'')"
    "val (latest_record ?r ''crp'') = 2" "val (previous_record ?r ''crp'') = 0"
    by code_simp+
  have e: "2 \<le> length (records_of ?r ''esr'')"
    "val (latest_record ?r ''esr'') = 0" "val (previous_record ?r ''esr'') = 0"
    by code_simp+
  have a: "js_num_gt (Math_abs (js_times (js_divide (js_minus (to_double 110) (to_double 90)) (to_double 90)) (Fin 100))) 15"
    "\<not> js_num_gt (Math_abs (js_times (js_divide (js_minus (to_double 52) (to_double 50)) (to_double 50)) (Fin 100))) 15"
    "js_num_gt (Math_abs (js_times (js_divide (js_minus (to_double (69 / 10)) (to_double 6)) (to_double 6)) (Fin 100))) 15"
    "\<not> js_is_zero (to_double 2)" "js_is_zero (to_double 0)"
    by code_simp+
  obtain fl ch where vp: "VisitPreparation ?r = Inr (fl, ch)"
    and f: "\<forall>m. m \<in> set (map f_id fl) \<longleftrightarrow>
        records_of ?r m \<noteq> [] \<and>
        (getStatus (val (latest_record ?r m)) m = Inr Attention \<or>
         getStatus (val (latest_record ?r m)) m = Inr Critical)"
    and s: "\<forall>m. m \<in> set (map c_id ch) \<longleftrightarrow>
        m \<in> set (Object_keys BIOMARKER_DEFINITIONS) \<and> 2 \<le> length (records_of ?r m) \<and>
        js_num_gt
           (Math_abs
              (js_times
                 (js_divide
                    (js_minus (to_double (val (latest_record ?r m)))
                              (to_double (val (previous_record ?r m))))
                    (to_double (val (previous_record ?r m))))
                 (Fin 100))) 15"
    and z: "\<forall>m. m \<in> set (Object_keys BIOMARKER_DEFINITIONS) \<longrightarrow> 2 \<le> length (records_of ?r m) \<longrightarrow>
        val (previous_record ?r m) = 0 \<longrightarrow>
        (m \<in> set (map c_id ch) \<longleftrightarrow> \<not> js_is_zero (to_double (val (latest_record ?r m))))"
    using VisitPreparation_contract[of ?r] by blast
  have "''glucose'' \<in> set (map f_id fl)"
    using f[rule_format, of "''glucose''"] g by simp
  moreover have "''hdl'' \<notin> set (map f_id fl)"
    using f[rule_format, of "''hdl''"] h by simp
  moreover have "''glucose'' \<in> set (map c_id ch)"
    using s[rule_format, of "''glucose''"] k(1) g(2,3,4) a(1) by simp
  moreover have "''hdl'' \<notin> set (map c_id ch)"
    using s[rule_format, of "''hdl''"] h(3,4) a(2) by simp
  moreover have "''uricAcid'' \<in> set (map c_id ch)"
    using s[rule_format, of "''uricAcid''"] k(3) u a(3) by simp
  moreover have "''crp'' \<in> set (map c_id ch)"
    using z[rule_format, OF k(4) c(1) c(3)] c(2) a(4) by simp
  moreover have "''esr'' \<notin> set (map c_id ch)"
    using z[rule_format, OF k(5) e(1) e(3)] e(2) a(5) by simp
  ultimately show ?thesis using vp by blast
qed

text \<open>
  C7 as stated fails three times on one input. The marker \<open>ketones\<close>, which the catalog
  does not have, went from 10 to 20, so \<open>|latest - previous| / previous * 100 = 100\<close>
  exceeds 15, and it is not listed. Glucose went from -10 to 80, so
  \<open>|latest - previous| / previous * 100 = -900\<close> does not exceed 15, and it is listed.
  Uric acid went from 6.0 to 6.9, so the exact \<open>|latest - previous| / previous * 100\<close> is
  15, which does not exceed 15, and it is listed: the double is 15.000000000000005.
\<close>

theorem VisitPreparation_counterexample:
  "VisitPreparation
      [\<lparr>markerId = ''glucose'', val = -10, date = 1\<rparr>,
      \<lparr>markerId = ''glucose'', val = 80, date = 2\<rparr>,
      \<lparr>markerId = ''ketones'', val = 10, date = 1\<rparr>,
      \<lparr>markerId = ''ketones'', val = 20, date = 2\<rparr>,
      \<lparr>markerId = ''uricAcid'', val = 6, date = 1\<rparr>,
      \<lparr>markerId = ''uricAcid'', val = 69 / 10, date = 2\<rparr>]
   = Inr ([], [\<lparr>c_id = ''glucose'', c_change = Decimal1 True 9000, c_direction = Decreased\<rparr>,
               \<lparr>c_id = ''uricAcid'', c_change = Decimal1 False 150, c_direction = Increased\<rparr>]) \<and>
   map val (sort_date_desc (records_of
      [\<lparr>markerId = ''glucose'', val = -10, date = 1\<rparr>,
      \<lparr>markerId = ''glucose'', val = 80, date = 2\<rparr>,
      \<lparr>markerId = ''ketones'', val = 10, date = 1\<rparr>,
      \<lparr>markerId = ''ketones'', val = 20, date = 2\<rparr>,
      \<lparr>markerId = ''uricAcid'', val = 6, date = 1\<rparr>,
      \<lparr>markerId = ''uricAcid'', val = 69 / 10, date = 2\<rparr>] ''ketones''))
   = [20, 10] \<and>
   (15::rat) < \<bar>20 - 10\<bar> / 10 * 100 \<and>
   map val (sort_date_desc (records_of
      [\<lparr>markerId = ''glucose'', val = -10, date = 1\<rparr>,
      \<lparr>markerId = ''glucose'', val = 80, date = 2\<rparr>,
      \<lparr>markerId = ''ketones'', val = 10, date = 1\<rparr>,
      \<lparr>markerId = ''ketones'', val = 20, date = 2\<rparr>,
      \<lparr>markerId = ''uricAcid'', val = 6, date = 1\<rparr>,
      \<lparr>markerId = ''uricAcid'', val = 69 / 10, date = 2\<rparr>] ''glucose''))
   = [80, - 10] \<and>
   \<not> (15::rat) < \<bar>80 - (- 10)\<bar> / (- 10) * 100 \<and>
   map val (sort_date_desc (records_of
      [\<lparr>markerId = ''glucose'', val = -10, date = 1\<rparr>,
      \<lparr>markerId = ''glucose'', val = 80, date = 2\<rparr>,
      \<lparr>markerId = ''ketones'', val = 10, date = 1\<rparr>,
      \<lparr>markerId = ''ketones'', val = 20, date = 2\<rparr>,
      \<lparr>markerId = ''uricAcid'', val = 6, date = 1\<rparr>,
      \<lparr>markerId = ''uricAcid'', val = 69 / 10, date = 2\<rparr>] ''uricAcid''))
   = [69 / 10, 6] \<and>
   \<not> (15::rat) < \<bar>69 / 10 - 6\<bar> / 6 * 100"
  by code_simp

end
